theory Spec2Isabelle
  imports Main "HOL-Library.Sublist"
begin

section \<open>Python values, errors and string methods\<close>

text \<open>
  The module \<^verbatim>\<open>nipype/interfaces/dtitk/registration.py\<close> declares ten command-line
  wrappers. Each has an input specification (a class of traits) and a method
  \<^verbatim>\<open>_list_outputs\<close> that predicts the names of the files the command writes.

  An input field holds either a string or the marker \<^verbatim>\<open>Undefined\<close> that nipype
  gives to every trait that was never assigned.
\<close>

datatype pyval = Undefined | Str string

datatype py_error = AttributeError string | TraitError string

text \<open>
  Modelled from the spec: \<^verbatim>\<open>isdefined\<close> of \<^verbatim>\<open>nipype.interfaces.base\<close> (missing
  from the source at hand) tells whether a value is not \<^verbatim>\<open>Undefined\<close>.
\<close>

definition isdefined :: "pyval \<Rightarrow> bool" where
  "isdefined v = (v \<noteq> Undefined)"

text \<open>
  \<^verbatim>\<open>s.replace(old, new)\<close>: every non-overlapping occurrence of \<^verbatim>\<open>old\<close>, found from
  left to right, is replaced. With an empty \<^verbatim>\<open>old\<close> Python puts \<^verbatim>\<open>new\<close> before every
  character and at the end.
\<close>

function str_replace :: "string \<Rightarrow> string \<Rightarrow> string \<Rightarrow> string" where
  "str_replace [] old new = (if old = [] then new else [])"
| "str_replace (c # cs) old new =
     (if old = [] then new @ c # str_replace cs old new
      else if prefix old (c # cs)
        then new @ str_replace (drop (length old) (c # cs)) old new
      else c # str_replace cs old new)"
  by pat_completeness auto
termination
  by (relation "measure (\<lambda>(s, old, new). length s)") auto

text \<open>The method call on a field value: \<^verbatim>\<open>Undefined\<close> has no method \<^verbatim>\<open>replace\<close>.\<close>

definition replace :: "pyval \<Rightarrow> string \<Rightarrow> string \<Rightarrow> py_error + pyval" where
  "replace v old new =
     (case v of
        Undefined \<Rightarrow> Inl (AttributeError ''replace'')
      | Str s \<Rightarrow> Inr (Str (str_replace s old new)))"

text \<open>\<^verbatim>\<open>s.split(sep)\<close> for a one-character separator, and \<^verbatim>\<open>sep.join(ws)\<close>.\<close>

fun str_split :: "char \<Rightarrow> string \<Rightarrow> string list" where
  "str_split sep [] = [[]]"
| "str_split sep (c # cs) =
     (if c = sep then [] # str_split sep cs
      else (case str_split sep cs of
              [] \<Rightarrow> [[c]]
            | w # ws \<Rightarrow> (c # w) # ws))"

fun str_join :: "string \<Rightarrow> string list \<Rightarrow> string" where
  "str_join sep [] = []"
| "str_join sep [w] = w"
| "str_join sep (w # v # ws) = w @ sep @ str_join sep (v # ws)"

text \<open>\<^verbatim>\<open>s.lower()\<close> on a byte string: the letters A to Z are mapped to a to z.\<close>

definition lower_char :: "char \<Rightarrow> char" where
  "lower_char c =
     (if (65::nat) \<le> of_char c \<and> of_char c \<le> (90::nat)
      then char_of (of_char c + (32::nat)) else c)"

definition str_lower :: "string \<Rightarrow> string" where
  "str_lower s = map lower_char s"

text \<open>The slices \<^verbatim>\<open>s[-n:]\<close> and \<^verbatim>\<open>s[:-n]\<close>; for \<^verbatim>\<open>n = 0\<close> they are \<^verbatim>\<open>s[0:]\<close> and \<^verbatim>\<open>s[:0]\<close>.\<close>

definition slice_last :: "nat \<Rightarrow> string \<Rightarrow> string" where
  "slice_last n s = (if n = 0 then s else drop (length s - n) s)"

definition slice_but_last :: "nat \<Rightarrow> string \<Rightarrow> string" where
  "slice_but_last n s = (if n = 0 then [] else take (length s - n) s)"


section \<open>The POSIX path functions of \<^verbatim>\<open>os.path\<close>\<close>

text \<open>
  The functions of Python's \<^verbatim>\<open>posixpath\<close> that the module reaches, directly
  (\<^verbatim>\<open>os.path.abspath\<close>) or through \<^verbatim>\<open>fname_presuffix\<close>. The current working
  directory, which \<^verbatim>\<open>abspath\<close> reads with \<^verbatim>\<open>os.getcwd()\<close>, is the parameter \<open>cwd\<close>.
\<close>

definition isabs :: "string \<Rightarrow> bool" where
  "isabs s = prefix ''/'' s"

definition join :: "string \<Rightarrow> string \<Rightarrow> string" where
  "join a b =
     (if prefix ''/'' b then b
      else if a = [] \<or> suffix ''/'' a then a @ b
      else a @ ''/'' @ b)"

text \<open>One round of the loop of \<^verbatim>\<open>normpath\<close> over the components of the path.\<close>

definition normpath_step :: "nat \<Rightarrow> string list \<Rightarrow> string \<Rightarrow> string list" where
  "normpath_step initial_slashes new_comps part =
     (if part = [] \<or> part = ''.'' then new_comps
      else if part \<noteq> ''..'' \<or> (initial_slashes = 0 \<and> new_comps = [])
              \<or> (new_comps \<noteq> [] \<and> last new_comps = ''..'')
        then new_comps @ [part]
      else if new_comps \<noteq> [] then butlast new_comps
      else new_comps)"

definition initial_slashes_of :: "string \<Rightarrow> nat" where
  "initial_slashes_of path =
     (if prefix ''/'' path
      then (if prefix ''//'' path \<and> \<not> prefix ''///'' path then 2 else 1)
      else 0)"

definition normpath :: "string \<Rightarrow> string" where
  "normpath path =
     (if path = [] then ''.''
      else
        let initial_slashes = initial_slashes_of path;
            comps = foldl (normpath_step initial_slashes) [] (str_split CHR ''/'' path);
            p = replicate initial_slashes CHR ''/'' @ str_join ''/'' comps
        in if p = [] then ''.'' else p)"

definition abspath :: "string \<Rightarrow> string \<Rightarrow> string" where
  "abspath cwd path = normpath (if isabs path then path else join cwd path)"

definition basename :: "string \<Rightarrow> string" where
  "basename p = rev (takeWhile (\<lambda>c. c \<noteq> CHR ''/'') (rev p))"

definition dirname :: "string \<Rightarrow> string" where
  "dirname p =
     (let head = rev (dropWhile (\<lambda>c. c \<noteq> CHR ''/'') (rev p))
      in if head \<noteq> [] \<and> head \<noteq> replicate (length head) CHR ''/''
         then rev (dropWhile (\<lambda>c. c = CHR ''/'') (rev head))
         else head)"

text \<open>
  \<^verbatim>\<open>splitext\<close>: the extension starts at the last dot of the last component, unless
  only dots stand before it in that component.
\<close>

definition splitext :: "string \<Rightarrow> string \<times> string" where
  "splitext p =
     (let name = basename p;
          ext = CHR ''.'' # rev (takeWhile (\<lambda>c. c \<noteq> CHR ''.'') (rev name));
          root = take (length name - length ext) name
      in if CHR ''.'' \<in> set name \<and> root \<noteq> replicate (length root) CHR ''.''
         then (take (length p - length ext) p, ext)
         else (p, []))"

text \<open>\<^verbatim>\<open>os.path.abspath\<close> on a field value: \<^verbatim>\<open>isabs\<close> calls \<^verbatim>\<open>startswith\<close> on it.\<close>

definition abspath_val :: "string \<Rightarrow> pyval \<Rightarrow> py_error + pyval" where
  "abspath_val cwd v =
     (case v of
        Undefined \<Rightarrow> Inl (AttributeError ''startswith'')
      | Str s \<Rightarrow> Inr (Str (abspath cwd s)))"


section \<open>File name helpers of \<^verbatim>\<open>nipype.utils.filemanip\<close>\<close>

text \<open>
  The module imports \<^verbatim>\<open>fname_presuffix\<close> from \<^verbatim>\<open>nipype.utils.filemanip\<close>, which is not
  part of the source at hand; it and the \<^verbatim>\<open>split_filename\<close> it calls are written here
  after their documented behaviour.
\<close>

text \<open>
  Modelled from the spec: the table of double extensions of \<^verbatim>\<open>split_filename\<close> (missing
  from the source at hand), which count as one extension.
\<close>

definition special_extensions :: "string list" where
  "special_extensions = [''.nii.gz'', ''.tar.gz'']"

text \<open>
  Modelled from the spec: the loop of \<^verbatim>\<open>split_filename\<close> (missing from the source at hand)
  over the special extensions. The first one that ends the name, compared without
  regard to case, and is shorter than the name, is cut off.
\<close>

fun match_special_ext :: "string list \<Rightarrow> string \<Rightarrow> (string \<times> string) option" where
  "match_special_ext [] fname = None"
| "match_special_ext (special_ext # rest) fname =
     (let ext_len = length special_ext
      in if length fname > ext_len
            \<and> str_lower (slice_last ext_len fname) = str_lower special_ext
         then Some (slice_but_last ext_len fname, slice_last ext_len fname)
         else match_special_ext rest fname)"

text \<open>
  Modelled from the spec: \<^verbatim>\<open>split_filename\<close> of \<^verbatim>\<open>nipype.utils.filemanip\<close> (missing from the
  source at hand) cuts a path into its directory, the base name without extension, and
  the extension.
\<close>

definition split_filename :: "string \<Rightarrow> string \<times> string \<times> string" where
  "split_filename fname =
     (let pth = dirname fname;
          name = basename fname
      in case match_special_ext special_extensions name of
           Some (stem, ext) \<Rightarrow> (pth, stem, ext)
         | None \<Rightarrow> (pth, fst (splitext name), snd (splitext name)))"

text \<open>
  Modelled from the spec: \<^verbatim>\<open>fname_presuffix\<close> of \<^verbatim>\<open>nipype.utils.filemanip\<close> (missing from the
  source at hand) puts a prefix and a suffix around the base name, keeps the extension
  when \<^verbatim>\<open>use_ext\<close> is set, and moves the file to the directory \<^verbatim>\<open>newpath\<close> when one is given.
\<close>

definition fname_presuffix ::
  "string \<Rightarrow> string \<Rightarrow> string \<Rightarrow> string \<Rightarrow> string option \<Rightarrow> bool \<Rightarrow> string" where
  "fname_presuffix cwd fname pre suf newpath use_ext =
     (case split_filename fname of (pth, stem, ext) \<Rightarrow>
        let ext' = (if use_ext then ext else []);
            pth' = (case newpath of
                      None \<Rightarrow> pth
                    | Some np \<Rightarrow> if np \<noteq> [] then abspath cwd np else pth)
        in join pth' (pre @ stem @ suf @ ext'))"

text \<open>
  Modelled from the spec: the call of \<^verbatim>\<open>fname_presuffix\<close> (missing from the source at hand)
  on a field value. \<^verbatim>\<open>split_filename\<close> starts with \<^verbatim>\<open>os.path.dirname\<close>, which calls
  \<^verbatim>\<open>rfind\<close> on its argument.
\<close>

definition fname_presuffix_val ::
  "string \<Rightarrow> pyval \<Rightarrow> string \<Rightarrow> string \<Rightarrow> string option \<Rightarrow> bool \<Rightarrow> py_error + string" where
  "fname_presuffix_val cwd v pre suf newpath use_ext =
     (case v of
        Undefined \<Rightarrow> Inl (AttributeError ''rfind'')
      | Str s \<Rightarrow> Inr (fname_presuffix cwd s pre suf newpath use_ext))"


section \<open>Input specifications\<close>

text \<open>
  A trait of an input specification, with the metadata the output names depend on:
  its type (\<^verbatim>\<open>traits.Str\<close> or \<^verbatim>\<open>traits.Enum\<close> with its values) and the
  \<^verbatim>\<open>name_source\<close> and \<^verbatim>\<open>name_template\<close> of a generated file name. The metadata
  that only shapes the command line (\<^verbatim>\<open>position\<close>, \<^verbatim>\<open>argstr\<close>, \<^verbatim>\<open>mandatory\<close>,
  \<^verbatim>\<open>desc\<close>) is left out.
\<close>

datatype trait_type = TStr | TEnum "string list"

record trait =
  ttype :: trait_type
  name_source :: "string option"
  name_template :: "string option"

type_synonym input_spec = "(string \<times> trait) list"

definition traits_Str :: trait where
  "traits_Str = \<lparr>ttype = TStr, name_source = None, name_template = None\<rparr>"

definition traits_Enum :: "string list \<Rightarrow> trait" where
  "traits_Enum values = \<lparr>ttype = TEnum values, name_source = None, name_template = None\<rparr>"

definition traits_Str_named :: "string \<Rightarrow> string \<Rightarrow> trait" where
  "traits_Str_named src tmpl =
     \<lparr>ttype = TStr, name_source = Some src, name_template = Some tmpl\<rparr>"

definition RigidInputSpec :: input_spec where
  "RigidInputSpec =
     [(''fixed_file'', traits_Str),
      (''moving_file'', traits_Str),
      (''similarity_metric'', traits_Enum [''EDS'', ''GDS'', ''DDS'', ''NMI''])]"

definition AffineInputSpec :: input_spec where
  "AffineInputSpec =
     [(''in_fixed_tensor'', traits_Str),
      (''in_moving_txt'', traits_Str),
      (''in_similarity_metric'', traits_Enum [''EDS'', ''GDS'', ''DDS'', ''NMI'']),
      (''in_usetrans_flag'', traits_Enum [''--useTrans'', []])]"

definition DiffeoInputSpec :: input_spec where
  "DiffeoInputSpec =
     [(''in_fixed_tensor'', traits_Str),
      (''in_moving_txt'', traits_Str),
      (''in_mask'', traits_Str),
      (''in_numbers'', traits_Str)]"

definition ComposeXfmInputSpec :: input_spec where
  "ComposeXfmInputSpec =
     [(''in_df'', traits_Str),
      (''in_aff'', traits_Str),
      (''out_path'', traits_Str_named ''in_df'' ''%s_comboaff.nii.gz'')]"

definition diffeoSymTensor3DVolInputSpec :: input_spec where
  "diffeoSymTensor3DVolInputSpec =
     [(''in_tensor'', traits_Str),
      (''in_xfm'', traits_Str),
      (''in_target'', traits_Str),
      (''out_path'', traits_Str_named ''in_tensor'' ''%s_diffeoxfmd.nii.gz'')]"

definition affSymTensor3DVolInputSpec :: input_spec where
  "affSymTensor3DVolInputSpec =
     [(''in_tensor'', traits_Str),
      (''in_xfm'', traits_Str),
      (''in_target'', traits_Str),
      (''out_path'', traits_Str_named ''in_tensor'' ''%s_affxfmd.nii.gz'')]"

definition affScalarVolInputSpec :: input_spec where
  "affScalarVolInputSpec =
     [(''in_volume'', traits_Str),
      (''in_xfm'', traits_Str),
      (''in_target'', traits_Str),
      (''out_path'', traits_Str_named ''in_volume'' ''%s_affxfmd.nii.gz'')]"

definition diffeoScalarVolInputSpec :: input_spec where
  "diffeoScalarVolInputSpec =
     [(''in_volume'', traits_Str),
      (''in_xfm'', traits_Str),
      (''in_target'', traits_Str),
      (''out_path'', traits_Str_named ''in_volume'' ''%s_diffeoxfmd.nii.gz''),
      (''in_vsize'', traits_Str),
      (''in_flip'', traits_Str),
      (''in_type'', traits_Str),
      (''in_interp'', traits_Str)]"

text \<open>
  The state of \<^verbatim>\<open>self.inputs\<close>: the attributes the object has and their values.
\<close>

type_synonym inputs = "string \<rightharpoonup> pyval"

text \<open>
  Modelled from the spec: the constructor of an input specification belongs to the base
  class in \<^verbatim>\<open>nipype.interfaces.base\<close>, which is missing from the source at hand. A
  fresh object has its declared traits, all \<^verbatim>\<open>Undefined\<close>. (The traits every command
  line inherits from the framework's base specification are read by no method of this
  module and are left out.)
\<close>

definition new_inputs :: "input_spec \<Rightarrow> inputs" where
  "new_inputs spec = map_of (map (\<lambda>(name, t). (name, Undefined)) spec)"

text \<open>Reading \<^verbatim>\<open>self.inputs.name\<close>: an attribute the object does not have raises.\<close>

definition getattr :: "inputs \<Rightarrow> string \<Rightarrow> py_error + pyval" where
  "getattr inp name =
     (case inp name of
        None \<Rightarrow> Inl (AttributeError name)
      | Some v \<Rightarrow> Inr v)"

text \<open>
  Modelled from the spec: the validation of a value by a trait belongs to the traits
  library behind \<^verbatim>\<open>nipype.interfaces.base\<close>, which is missing from the source at
  hand. A \<^verbatim>\<open>Str\<close> trait takes any string, an \<^verbatim>\<open>Enum\<close> trait takes the values it
  lists, and every trait can be reset to \<^verbatim>\<open>Undefined\<close>.
\<close>

definition validate :: "trait_type \<Rightarrow> pyval \<Rightarrow> bool" where
  "validate t v =
     (case v of
        Undefined \<Rightarrow> True
      | Str s \<Rightarrow> (case t of TStr \<Rightarrow> True | TEnum values \<Rightarrow> s \<in> set values))"

text \<open>
  Modelled from the spec: the assignment \<^verbatim>\<open>self.inputs.name = v\<close>, of the same
  missing library. A value that the trait refuses raises \<^verbatim>\<open>TraitError\<close> and the
  object keeps its state. A name that is no declared trait becomes a plain attribute.
\<close>

definition setattr ::
  "input_spec \<Rightarrow> inputs \<Rightarrow> string \<Rightarrow> pyval \<Rightarrow> (py_error + unit) \<times> inputs" where
  "setattr spec inp name v =
     (case map_of spec name of
        None \<Rightarrow> (Inr (), inp(name \<mapsto> v))
      | Some t \<Rightarrow>
          if validate (ttype t) v then (Inr (), inp(name \<mapsto> v))
          else (Inl (TraitError name), inp))"

text \<open>
  Modelled from the spec: the formatting \<^verbatim>\<open>name_template % base\<close> done by the
  framework's base class (missing from the source at hand), for a template with one
  \<^verbatim>\<open>%s\<close>.
\<close>

definition format_template :: "string \<Rightarrow> string \<Rightarrow> string" where
  "format_template tmpl base = str_replace tmpl ''%s'' base"

text \<open>
  Modelled from the spec: how the framework's base class (missing from the source at
  hand) names the file of a trait that declares \<^verbatim>\<open>name_source\<close> and
  \<^verbatim>\<open>name_template\<close>: the template's \<^verbatim>\<open>%s\<close> is replaced by the base name (no
  directory, no extension) of the file named by the source trait.
\<close>

definition name_from_template :: "input_spec \<Rightarrow> string \<Rightarrow> inputs \<Rightarrow> string option" where
  "name_from_template spec name inp =
     (case map_of spec name of
        None \<Rightarrow> None
      | Some t \<Rightarrow>
          (case (name_source t, name_template t) of
             (Some src, Some tmpl) \<Rightarrow>
               (case inp src of
                  Some (Str s) \<Rightarrow> Some (format_template tmpl (fst (snd (split_filename s))))
                | _ \<Rightarrow> None)
           | _ \<Rightarrow> None))"


section \<open>The tasks and their \<^verbatim>\<open>_list_outputs\<close>\<close>

text \<open>
  \<^verbatim>\<open>self.output_spec().get()\<close> is a dictionary with one entry per output trait, each
  \<^verbatim>\<open>Undefined\<close>. Every \<^verbatim>\<open>_list_outputs\<close> returns the dictionary it filled, or the
  error it raised, together with the state of \<^verbatim>\<open>self.inputs\<close> it leaves behind.
\<close>

type_synonym outputs = "string \<rightharpoonup> pyval"

definition output_spec_get :: "string list \<Rightarrow> outputs" where
  "output_spec_get names = map_of (map (\<lambda>name. (name, Undefined)) names)"

definition RigidOutputSpec :: "string list" where
  "RigidOutputSpec = [''out_file'', ''out_file_xfm'']"

definition AffineOutputSpec :: "string list" where
  "AffineOutputSpec = [''out_file'', ''out_file_xfm'']"

definition DiffeoOutputSpec :: "string list" where
  "DiffeoOutputSpec = [''out_file'', ''out_file_xfm'']"

definition ComposeXfmOutputSpec :: "string list" where
  "ComposeXfmOutputSpec = [''out_file'']"

definition diffeoSymTensor3DVolOutputSpec :: "string list" where
  "diffeoSymTensor3DVolOutputSpec = [''out_file'']"

definition affSymTensor3DVolOutputSpec :: "string list" where
  "affSymTensor3DVolOutputSpec = [''out_file'']"

definition affScalarVolOutputSpec :: "string list" where
  "affScalarVolOutputSpec = [''out_file'']"

definition diffeoScalarVolOutputSpec :: "string list" where
  "diffeoScalarVolOutputSpec = [''out_file'']"

definition bind_err :: "py_error + 'a \<Rightarrow> ('a \<Rightarrow> py_error + 'b) \<Rightarrow> py_error + 'b" where
  "bind_err m f = (case m of Inl e \<Rightarrow> Inl e | Inr x \<Rightarrow> f x)"

definition RigidTask_list_outputs :: "inputs \<Rightarrow> (py_error + outputs) \<times> inputs" where
  "RigidTask_list_outputs inp =
     (bind_err (getattr inp ''in_file'') (\<lambda>a.
      bind_err (replace a ''.nii.gz'' ''.aff'') (\<lambda>xfm.
      bind_err (getattr inp ''in_file'') (\<lambda>b.
      bind_err (replace b ''.nii.gz'' ''_aff.nii.gz'') (\<lambda>f.
      Inr ((output_spec_get RigidOutputSpec)
             (''out_file_xfm'' \<mapsto> xfm, ''out_file'' \<mapsto> f)))))),
      inp)"

definition AffineTask_list_outputs :: "inputs \<Rightarrow> (py_error + outputs) \<times> inputs" where
  "AffineTask_list_outputs inp =
     (bind_err (getattr inp ''in_fixed_tensor'') (\<lambda>a.
      bind_err (replace a ''.nii.gz'' ''.aff'') (\<lambda>xfm.
      bind_err (getattr inp ''in_fixed_tensor'') (\<lambda>b.
      bind_err (replace b ''.nii.gz'' ''_aff.nii.gz'') (\<lambda>f.
      Inr ((output_spec_get AffineOutputSpec)
             (''out_file_xfm'' \<mapsto> xfm, ''out_file'' \<mapsto> f)))))),
      inp)"

definition DiffeoTask_list_outputs :: "inputs \<Rightarrow> (py_error + outputs) \<times> inputs" where
  "DiffeoTask_list_outputs inp =
     (bind_err (getattr inp ''in_fixed_tensor'') (\<lambda>a.
      bind_err (replace a ''.nii.gz'' ''_aff_diffeo.df.nii.gz'') (\<lambda>xfm.
      bind_err (getattr inp ''in_fixed_tensor'') (\<lambda>b.
      bind_err (replace b ''.nii.gz'' ''_aff_diffeo.nii.gz'') (\<lambda>f.
      Inr ((output_spec_get DiffeoOutputSpec)
             (''out_file_xfm'' \<mapsto> xfm, ''out_file'' \<mapsto> f)))))),
      inp)"

definition ComposeXfmTask_list_outputs :: "inputs \<Rightarrow> (py_error + outputs) \<times> inputs" where
  "ComposeXfmTask_list_outputs inp =
     (bind_err (getattr inp ''in_df'') (\<lambda>a.
      bind_err (replace a ''.df.nii.gz'' ''_combo.df.nii.gz'') (\<lambda>f.
      Inr ((output_spec_get ComposeXfmOutputSpec)(''out_file'' \<mapsto> f)))),
      inp)"

definition diffeoSymTensor3DVolTask_list_outputs ::
  "inputs \<Rightarrow> (py_error + outputs) \<times> inputs" where
  "diffeoSymTensor3DVolTask_list_outputs inp =
     (bind_err (getattr inp ''out_path'') (\<lambda>p.
      Inr ((output_spec_get diffeoSymTensor3DVolOutputSpec)(''out_file'' \<mapsto> p))),
      inp)"

definition affSymTensor3DVolTask_list_outputs ::
  "string \<Rightarrow> inputs \<Rightarrow> (py_error + outputs) \<times> inputs" where
  "affSymTensor3DVolTask_list_outputs cwd inp =
     (bind_err (getattr inp ''out_path'') (\<lambda>p.
      bind_err (abspath_val cwd p) (\<lambda>f.
      Inr ((output_spec_get affSymTensor3DVolOutputSpec)(''out_file'' \<mapsto> f)))),
      inp)"

definition affScalarVolTask_list_outputs ::
  "string \<Rightarrow> inputs \<Rightarrow> (py_error + outputs) \<times> inputs" where
  "affScalarVolTask_list_outputs cwd inp =
     (bind_err (getattr inp ''out_path'') (\<lambda>p.
      bind_err (abspath_val cwd p) (\<lambda>f.
      Inr ((output_spec_get affScalarVolOutputSpec)(''out_file'' \<mapsto> f)))),
      inp)"

text \<open>
  The body of the \<^verbatim>\<open>if not isdefined(self.inputs.out_path)\<close> of
  \<^verbatim>\<open>diffeoScalarVolTask._list_outputs\<close>: it assigns \<^verbatim>\<open>self.inputs.out_path\<close>.
\<close>

definition diffeoScalarVolTask_fill_out_path ::
  "string \<Rightarrow> inputs \<Rightarrow> (py_error + unit) \<times> inputs" where
  "diffeoScalarVolTask_fill_out_path cwd inp =
     (case getattr inp ''in_volume'' of
        Inl e \<Rightarrow> (Inl e, inp)
      | Inr v \<Rightarrow>
          (case fname_presuffix_val cwd v [] ''_diffeoxfmd'' (Some (abspath cwd ''.'')) True of
             Inl e \<Rightarrow> (Inl e, inp)
           | Inr name \<Rightarrow> setattr diffeoScalarVolInputSpec inp ''out_path'' (Str name)))"

definition diffeoScalarVolTask_list_outputs ::
  "string \<Rightarrow> inputs \<Rightarrow> (py_error + outputs) \<times> inputs" where
  "diffeoScalarVolTask_list_outputs cwd inp =
     (case getattr inp ''out_path'' of
        Inl e \<Rightarrow> (Inl e, inp)
      | Inr p \<Rightarrow>
          (case (if isdefined p then (Inr (), inp)
                 else diffeoScalarVolTask_fill_out_path cwd inp) of
             (Inl e, inp') \<Rightarrow> (Inl e, inp')
           | (Inr u, inp') \<Rightarrow>
               (bind_err (getattr inp' ''out_path'') (\<lambda>q.
                bind_err (abspath_val cwd q) (\<lambda>f.
                Inr ((output_spec_get diffeoScalarVolOutputSpec)(''out_file'' \<mapsto> f)))),
                inp')))"


section \<open>Properties of the string substitution\<close>

lemma nii_gz_no_border:
  assumes "prefix ''.nii.gz'' (b @ ''.nii.gz'')" and "b \<noteq> []"
  shows "prefix ''.nii.gz'' b"
proof (rule ccontr)
  assume np: "\<not> prefix ''.nii.gz'' b"
  have len: "length b < 7"
  proof (rule ccontr)
    assume "\<not> length b < 7"
    then have "length ''.nii.gz'' \<le> length b" by simp
    with assms(1) have "prefix ''.nii.gz'' b"
      by (metis prefix_length_prefix prefixI)
    with np show False by contradiction
  qed
  have nth: "''.nii.gz'' ! i = (b @ ''.nii.gz'') ! i" if "i < 7" for i
  proof -
    from assms(1) obtain zs where "b @ ''.nii.gz'' = ''.nii.gz'' @ zs"
      by (auto simp: prefix_def)
    then have "(b @ ''.nii.gz'') ! i = (''.nii.gz'' @ zs) ! i" by simp
    also have "\<dots> = ''.nii.gz'' ! i" using that by (simp only: nth_append) simp
    finally show ?thesis by simp
  qed
  have shift: "''.nii.gz'' ! (length b + j) = ''.nii.gz'' ! j" if "length b + j < 7" for j
    using nth[OF that] by (simp add: nth_append)
  have "0 < length b" using assms(2) by simp
  with len consider "length b = 1" | "length b = 2" | "length b = 3"
    | "length b = 4" | "length b = 5" | "length b = 6"
    by arith
  then show False
  proof cases
    case 1 with shift[of 0] show False by simp
  next
    case 2 with shift[of 0] show False by simp
  next
    case 3 with shift[of 0] show False by simp
  next
    case 4 with shift[of 1] show False by simp
  next
    case 5 with shift[of 0] show False by simp
  next
    case 6 with shift[of 0] show False by simp
  qed
qed

lemma nii_gz_not_prefix:
  assumes "\<not> sublist ''.nii.gz'' (c # cs)"
  shows "\<not> prefix ''.nii.gz'' ((c # cs) @ ''.nii.gz'' @ r)"
proof
  assume p: "prefix ''.nii.gz'' ((c # cs) @ ''.nii.gz'' @ r)"
  have "prefix ((c # cs) @ ''.nii.gz'') ((c # cs) @ ''.nii.gz'' @ r)" by simp
  with p have "prefix ''.nii.gz'' ((c # cs) @ ''.nii.gz'')"
    by (rule prefix_length_prefix) simp
  then have "prefix ''.nii.gz'' (c # cs)" by (rule nii_gz_no_border) simp
  then have "sublist ''.nii.gz'' (c # cs)" by (rule prefix_imp_sublist)
  with assms show False by contradiction
qed

lemma str_replace_absent:
  "old \<noteq> [] \<Longrightarrow> \<not> sublist old s \<Longrightarrow> str_replace s old new = s"
  by (induction s) (auto simp: sublist_Cons_right)

lemma str_replace_skip_char:
  "old \<noteq> [] \<Longrightarrow> \<not> prefix old ((c # cs) @ r)
   \<Longrightarrow> str_replace ((c # cs) @ r) old new = c # str_replace (cs @ r) old new"
  by simp

lemma str_replace_nii_gz_first:
  assumes "\<not> sublist ''.nii.gz'' a"
  shows "str_replace (a @ ''.nii.gz'' @ r) ''.nii.gz'' new
         = a @ new @ str_replace r ''.nii.gz'' new"
  using assms
proof (induction a)
  case Nil
  show ?case by simp
next
  case (Cons c cs)
  have ns: "\<not> sublist ''.nii.gz'' cs"
    using Cons.prems by (auto simp: sublist_Cons_right)
  have "\<not> prefix ''.nii.gz'' ((c # cs) @ ''.nii.gz'' @ r)"
    using Cons.prems by (rule nii_gz_not_prefix)
  then have "str_replace ((c # cs) @ ''.nii.gz'' @ r) ''.nii.gz'' new
             = c # str_replace (cs @ ''.nii.gz'' @ r) ''.nii.gz'' new"
    by (intro str_replace_skip_char) simp
  also have "\<dots> = c # cs @ new @ str_replace r ''.nii.gz'' new"
    using Cons.IH[OF ns] by (simp only:)
  finally show ?case by (simp only: append_Cons)
qed

lemma str_replace_nii_gz_suffix:
  assumes "\<not> sublist ''.nii.gz'' base"
  shows "str_replace (base @ ''.nii.gz'') ''.nii.gz'' new = base @ new"
  using str_replace_nii_gz_first[OF assms, of "[]" new] by simp

lemma str_replace_nii_gz_join:
  assumes "segs \<noteq> []" and "\<forall>seg\<in>set segs. \<not> sublist ''.nii.gz'' seg"
  shows "str_replace (str_join ''.nii.gz'' segs) ''.nii.gz'' new = str_join new segs"
  using assms
proof (induction segs rule: induct_list012)
  case 1
  then show ?case by simp
next
  case (2 w)
  then show ?case by (simp add: str_replace_absent)
next
  case (3 w v ws)
  have "str_replace (w @ ''.nii.gz'' @ str_join ''.nii.gz'' (v # ws)) ''.nii.gz'' new
        = w @ new @ str_replace (str_join ''.nii.gz'' (v # ws)) ''.nii.gz'' new"
    using "3.prems" by (intro str_replace_nii_gz_first) simp
  also have "str_replace (str_join ''.nii.gz'' (v # ws)) ''.nii.gz'' new = str_join new (v # ws)"
    using "3.prems" by (intro "3.IH"(2)) simp_all
  finally show ?case by (simp only: str_join.simps)
qed

section \<open>The output dictionaries\<close>

lemma outputs_two:
  "(output_spec_get [''out_file'', ''out_file_xfm''])(''out_file_xfm'' \<mapsto> x, ''out_file'' \<mapsto> f)
   = [''out_file_xfm'' \<mapsto> x, ''out_file'' \<mapsto> f]"
  by (rule ext) (simp add: output_spec_get_def)

lemma outputs_one:
  "(output_spec_get [''out_file''])(''out_file'' \<mapsto> f) = [''out_file'' \<mapsto> f]"
  by (rule ext) (simp add: output_spec_get_def)

lemma AffineTask_list_outputs_Str:
  assumes "inp ''in_fixed_tensor'' = Some (Str s)"
  shows "AffineTask_list_outputs inp =
    (Inr [''out_file_xfm'' \<mapsto> Str (str_replace s ''.nii.gz'' ''.aff''),
          ''out_file'' \<mapsto> Str (str_replace s ''.nii.gz'' ''_aff.nii.gz'')], inp)"
  using assms
  by (simp add: AffineTask_list_outputs_def getattr_def replace_def bind_err_def
      AffineOutputSpec_def outputs_two)

lemma DiffeoTask_list_outputs_Str:
  assumes "inp ''in_fixed_tensor'' = Some (Str s)"
  shows "DiffeoTask_list_outputs inp =
    (Inr [''out_file_xfm'' \<mapsto> Str (str_replace s ''.nii.gz'' ''_aff_diffeo.df.nii.gz''),
          ''out_file'' \<mapsto> Str (str_replace s ''.nii.gz'' ''_aff_diffeo.nii.gz'')], inp)"
  using assms
  by (simp add: DiffeoTask_list_outputs_def getattr_def replace_def bind_err_def
      DiffeoOutputSpec_def outputs_two)

section \<open>Output names of the affine and the diffeomorphic registration\<close>

text \<open>
  Claim C5. When \<^verbatim>\<open>in_fixed_tensor\<close> of an \<^verbatim>\<open>AffineTask\<close> is \<open>base\<close> followed by
  \<^verbatim>\<open>.nii.gz\<close>, and \<^verbatim>\<open>.nii.gz\<close> does not occur in \<open>base\<close>, then
  \<^verbatim>\<open>_list_outputs\<close> returns \<^verbatim>\<open>out_file_xfm\<close> = \<open>base\<close> + \<^verbatim>\<open>.aff\<close> and
  \<^verbatim>\<open>out_file\<close> = \<open>base\<close> + \<^verbatim>\<open>_aff.nii.gz\<close>.
\<close>

theorem AffineTask_suffix:
  assumes "inp ''in_fixed_tensor'' = Some (Str (base @ ''.nii.gz''))"
    and "\<not> sublist ''.nii.gz'' base"
  shows "fst (AffineTask_list_outputs inp) =
           Inr [''out_file_xfm'' \<mapsto> Str (base @ ''.aff''),
                ''out_file'' \<mapsto> Str (base @ ''_aff.nii.gz'')]"
  using assms by (simp add: AffineTask_list_outputs_Str str_replace_nii_gz_suffix)

theorem AffineTask_suffix_witness:
  "fst (AffineTask_list_outputs
          ((new_inputs AffineInputSpec)(''in_fixed_tensor'' \<mapsto> Str ''diffusion.nii.gz''))) =
     Inr [''out_file_xfm'' \<mapsto> Str ''diffusion.aff'',
          ''out_file'' \<mapsto> Str ''diffusion_aff.nii.gz'']"
proof -
  have h: "\<not> sublist ''.nii.gz'' ''diffusion''" by code_simp
  show ?thesis
    using AffineTask_suffix[of "(new_inputs AffineInputSpec)(''in_fixed_tensor'' \<mapsto> Str ''diffusion.nii.gz'')" "''diffusion''", OF _ h]
    by simp
qed

text \<open>
  Claim C6. When \<^verbatim>\<open>in_fixed_tensor\<close> of a \<^verbatim>\<open>DiffeoTask\<close> is \<open>base\<close> followed by
  \<^verbatim>\<open>.nii.gz\<close>, and \<^verbatim>\<open>.nii.gz\<close> does not occur in \<open>base\<close>, then
  \<^verbatim>\<open>_list_outputs\<close> returns \<^verbatim>\<open>out_file_xfm\<close> = \<open>base\<close> + \<^verbatim>\<open>_aff_diffeo.df.nii.gz\<close> and
  \<^verbatim>\<open>out_file\<close> = \<open>base\<close> + \<^verbatim>\<open>_aff_diffeo.nii.gz\<close>.
\<close>

theorem DiffeoTask_suffix:
  assumes "inp ''in_fixed_tensor'' = Some (Str (base @ ''.nii.gz''))"
    and "\<not> sublist ''.nii.gz'' base"
  shows "fst (DiffeoTask_list_outputs inp) =
           Inr [''out_file_xfm'' \<mapsto> Str (base @ ''_aff_diffeo.df.nii.gz''),
                ''out_file'' \<mapsto> Str (base @ ''_aff_diffeo.nii.gz'')]"
  using assms by (simp add: DiffeoTask_list_outputs_Str str_replace_nii_gz_suffix)

theorem DiffeoTask_suffix_witness:
  "fst (DiffeoTask_list_outputs
          ((new_inputs DiffeoInputSpec)(''in_fixed_tensor'' \<mapsto> Str ''dir/tensor.nii.gz''))) =
     Inr [''out_file_xfm'' \<mapsto> Str ''dir/tensor_aff_diffeo.df.nii.gz'',
          ''out_file'' \<mapsto> Str ''dir/tensor_aff_diffeo.nii.gz'']"
proof -
  have h: "\<not> sublist ''.nii.gz'' ''dir/tensor''" by code_simp
  show ?thesis
    using DiffeoTask_suffix[of "(new_inputs DiffeoInputSpec)(''in_fixed_tensor'' \<mapsto> Str ''dir/tensor.nii.gz'')" "''dir/tensor''", OF _ h]
    by simp
qed

text \<open>
  Claim C8. When \<^verbatim>\<open>.nii.gz\<close> does not occur anywhere in \<^verbatim>\<open>in_fixed_tensor\<close> (a path ending in
  \<^verbatim>\<open>.nii\<close>, say), \<^verbatim>\<open>_list_outputs\<close> of \<^verbatim>\<open>AffineTask\<close> and of \<^verbatim>\<open>DiffeoTask\<close> returns
  \<^verbatim>\<open>out_file\<close> and \<^verbatim>\<open>out_file_xfm\<close> both equal to \<^verbatim>\<open>in_fixed_tensor\<close>, unchanged.
\<close>

theorem registration_identity_without_nii_gz:
  assumes "ainp ''in_fixed_tensor'' = Some (Str s)"
    and "dinp ''in_fixed_tensor'' = Some (Str s)"
    and "\<not> sublist ''.nii.gz'' s"
  shows "fst (AffineTask_list_outputs ainp) =
           Inr [''out_file_xfm'' \<mapsto> Str s, ''out_file'' \<mapsto> Str s]
       \<and> fst (DiffeoTask_list_outputs dinp) =
           Inr [''out_file_xfm'' \<mapsto> Str s, ''out_file'' \<mapsto> Str s]"
  using assms
  by (simp add: AffineTask_list_outputs_Str DiffeoTask_list_outputs_Str str_replace_absent)

theorem registration_identity_without_nii_gz_witness:
  "fst (AffineTask_list_outputs
          ((new_inputs AffineInputSpec)(''in_fixed_tensor'' \<mapsto> Str ''diffusion.nii''))) =
     Inr [''out_file_xfm'' \<mapsto> Str ''diffusion.nii'', ''out_file'' \<mapsto> Str ''diffusion.nii'']
   \<and> fst (DiffeoTask_list_outputs
          ((new_inputs DiffeoInputSpec)(''in_fixed_tensor'' \<mapsto> Str ''diffusion.nii''))) =
     Inr [''out_file_xfm'' \<mapsto> Str ''diffusion.nii'', ''out_file'' \<mapsto> Str ''diffusion.nii'']"
proof -
  have h: "\<not> sublist ''.nii.gz'' ''diffusion.nii''" by code_simp
  have a: "((new_inputs AffineInputSpec)(''in_fixed_tensor'' \<mapsto> Str ''diffusion.nii''))
             ''in_fixed_tensor'' = Some (Str ''diffusion.nii'')"
    by simp
  have d: "((new_inputs DiffeoInputSpec)(''in_fixed_tensor'' \<mapsto> Str ''diffusion.nii''))
             ''in_fixed_tensor'' = Some (Str ''diffusion.nii'')"
    by simp
  show ?thesis
    by (rule registration_identity_without_nii_gz[
          where ainp = "(new_inputs AffineInputSpec)(''in_fixed_tensor'' \<mapsto> Str ''diffusion.nii'')"
            and dinp = "(new_inputs DiffeoInputSpec)(''in_fixed_tensor'' \<mapsto> Str ''diffusion.nii'')"
            and s = "''diffusion.nii''", OF a d h])
qed

text \<open>
  Claim C2 says that only the trailing \<^verbatim>\<open>.nii.gz\<close> is substituted and every earlier
  occurrence stays. It fails: for the path \<^verbatim>\<open>a.nii.gz.b.nii.gz\<close> the affine
  registration names \<^verbatim>\<open>a.aff.b.aff\<close> and \<^verbatim>\<open>a_aff.nii.gz.b_aff.nii.gz\<close>, where
  both occurrences are substituted.
\<close>

theorem replace_all_occurrences_counterexample:
  "fst (AffineTask_list_outputs
          ((new_inputs AffineInputSpec)(''in_fixed_tensor'' \<mapsto> Str ''a.nii.gz.b.nii.gz''))) =
     Inr [''out_file_xfm'' \<mapsto> Str ''a.aff.b.aff'',
          ''out_file'' \<mapsto> Str ''a_aff.nii.gz.b_aff.nii.gz'']
   \<and> Str ''a.aff.b.aff'' \<noteq> Str ''a.nii.gz.b.aff''
   \<and> Str ''a_aff.nii.gz.b_aff.nii.gz'' \<noteq> Str ''a.nii.gz.b_aff.nii.gz''"
  by (simp add: AffineTask_list_outputs_Str)

text \<open>
  Claim C2, amended. \<^verbatim>\<open>_list_outputs\<close> of \<^verbatim>\<open>AffineTask\<close> and of \<^verbatim>\<open>DiffeoTask\<close> substitutes
  every occurrence of \<^verbatim>\<open>.nii.gz\<close>, the earlier ones as well as the trailing one: for a
  path made of segments free of \<^verbatim>\<open>.nii.gz\<close> with \<^verbatim>\<open>.nii.gz\<close> between them, each output name is
  the same segments with the replacement between them.
\<close>

theorem replace_all_occurrences:
  assumes "ainp ''in_fixed_tensor'' = Some (Str (str_join ''.nii.gz'' segs))"
    and "dinp ''in_fixed_tensor'' = Some (Str (str_join ''.nii.gz'' segs))"
    and "segs \<noteq> []" and "\<forall>seg\<in>set segs. \<not> sublist ''.nii.gz'' seg"
  shows "fst (AffineTask_list_outputs ainp) =
           Inr [''out_file_xfm'' \<mapsto> Str (str_join ''.aff'' segs),
                ''out_file'' \<mapsto> Str (str_join ''_aff.nii.gz'' segs)]
       \<and> fst (DiffeoTask_list_outputs dinp) =
           Inr [''out_file_xfm'' \<mapsto> Str (str_join ''_aff_diffeo.df.nii.gz'' segs),
                ''out_file'' \<mapsto> Str (str_join ''_aff_diffeo.nii.gz'' segs)]"
  using assms
  by (simp add: AffineTask_list_outputs_Str DiffeoTask_list_outputs_Str str_replace_nii_gz_join)

theorem replace_all_occurrences_witness:
  "fst (AffineTask_list_outputs
          ((new_inputs AffineInputSpec)(''in_fixed_tensor'' \<mapsto> Str ''a.nii.gz.b.nii.gz''))) =
     Inr [''out_file_xfm'' \<mapsto> Str ''a.aff.b.aff'',
          ''out_file'' \<mapsto> Str ''a_aff.nii.gz.b_aff.nii.gz'']
   \<and> fst (DiffeoTask_list_outputs
          ((new_inputs DiffeoInputSpec)(''in_fixed_tensor'' \<mapsto> Str ''a.nii.gz.b.nii.gz''))) =
     Inr [''out_file_xfm'' \<mapsto> Str ''a_aff_diffeo.df.nii.gz.b_aff_diffeo.df.nii.gz'',
          ''out_file'' \<mapsto> Str ''a_aff_diffeo.nii.gz.b_aff_diffeo.nii.gz'']"
proof -
  have h: "\<forall>seg\<in>set [''a'', ''.b'', []]. \<not> sublist ''.nii.gz'' seg" by code_simp
  have n: "[''a'', ''.b'', []] \<noteq> []" by simp
  have j: "str_join ''.nii.gz'' [''a'', ''.b'', []] = ''a.nii.gz.b.nii.gz''" by simp
  have a: "((new_inputs AffineInputSpec)(''in_fixed_tensor'' \<mapsto> Str ''a.nii.gz.b.nii.gz''))
             ''in_fixed_tensor'' = Some (Str (str_join ''.nii.gz'' [''a'', ''.b'', []]))"
    by (simp only: j) simp
  have d: "((new_inputs DiffeoInputSpec)(''in_fixed_tensor'' \<mapsto> Str ''a.nii.gz.b.nii.gz''))
             ''in_fixed_tensor'' = Some (Str (str_join ''.nii.gz'' [''a'', ''.b'', []]))"
    by (simp only: j) simp
  from replace_all_occurrences[
      where ainp = "(new_inputs AffineInputSpec)(''in_fixed_tensor'' \<mapsto> Str ''a.nii.gz.b.nii.gz'')"
        and dinp = "(new_inputs DiffeoInputSpec)(''in_fixed_tensor'' \<mapsto> Str ''a.nii.gz.b.nii.gz'')"
        and segs = "[''a'', ''.b'', []]", OF a d n h]
  show ?thesis by simp
qed


section \<open>The rigid registration\<close>

text \<open>
  Claim C1 says that \<^verbatim>\<open>_list_outputs\<close> of a \<^verbatim>\<open>RigidTask\<close> with its declared inputs set
  succeeds. It does not: the method reads \<^verbatim>\<open>self.inputs.in_file\<close>, which
  \<^verbatim>\<open>RigidInputSpec\<close> does not declare, so with the three declared inputs set to any
  values the method raises \<^verbatim>\<open>AttributeError\<close>.
\<close>

theorem RigidTask_list_outputs_raises:
  "fst (RigidTask_list_outputs
          ((new_inputs RigidInputSpec)
             (''fixed_file'' \<mapsto> f, ''moving_file'' \<mapsto> m, ''similarity_metric'' \<mapsto> sim)))
   = Inl (AttributeError ''in_file'')"
  by (simp add: RigidTask_list_outputs_def getattr_def bind_err_def new_inputs_def
      RigidInputSpec_def)


section \<open>The composed transform\<close>

lemma ComposeXfmTask_list_outputs_Str:
  assumes "inp ''in_df'' = Some (Str s)"
  shows "ComposeXfmTask_list_outputs inp =
    (Inr [''out_file'' \<mapsto> Str (str_replace s ''.df.nii.gz'' ''_combo.df.nii.gz'')], inp)"
  using assms
  by (simp add: ComposeXfmTask_list_outputs_def getattr_def replace_def bind_err_def
      ComposeXfmOutputSpec_def outputs_one)

text \<open>
  Claim C4 says that the \<^verbatim>\<open>out_file\<close> of \<^verbatim>\<open>ComposeXfmTask._list_outputs\<close> is the name that the template
  \<^verbatim>\<open>%s_comboaff.nii.gz\<close> of \<^verbatim>\<open>out_path\<close> gives for \<^verbatim>\<open>in_df\<close>. At the inputs of the
  class's own example the two differ: the method returns \<^verbatim>\<open>in_df\<close> unchanged,
  the template gives \<^verbatim>\<open>ants_Warp_comboaff.nii.gz\<close>.
\<close>

theorem ComposeXfmTask_names_disagree:
  "fst (ComposeXfmTask_list_outputs
          ((new_inputs ComposeXfmInputSpec)
             (''in_df'' \<mapsto> Str ''ants_Warp.nii.gz'', ''in_aff'' \<mapsto> Str ''ants_Affine.txt'')))
     = Inr [''out_file'' \<mapsto> Str ''ants_Warp.nii.gz'']
   \<and> name_from_template ComposeXfmInputSpec ''out_path''
          ((new_inputs ComposeXfmInputSpec)
             (''in_df'' \<mapsto> Str ''ants_Warp.nii.gz'', ''in_aff'' \<mapsto> Str ''ants_Affine.txt''))
     = Some ''ants_Warp_comboaff.nii.gz''"
proof -
  have r: "str_replace ''ants_Warp.nii.gz'' ''.df.nii.gz'' ''_combo.df.nii.gz''
           = ''ants_Warp.nii.gz''"
    by code_simp
  have t: "format_template ''%s_comboaff.nii.gz'' (fst (snd (split_filename ''ants_Warp.nii.gz'')))
           = ''ants_Warp_comboaff.nii.gz''"
    by code_simp
  have m: "map_of ComposeXfmInputSpec ''out_path''
           = Some (traits_Str_named ''in_df'' ''%s_comboaff.nii.gz'')"
    by (simp add: ComposeXfmInputSpec_def)
  show ?thesis
    by (simp add: ComposeXfmTask_list_outputs_Str r name_from_template_def m
        traits_Str_named_def t)
qed


section \<open>Absolute paths\<close>

lemma normpath_nonempty: "normpath path \<noteq> []"
  by (simp add: normpath_def Let_def)

lemma normpath_absolute: "isabs path \<Longrightarrow> isabs (normpath path)"
  by (auto simp: normpath_def Let_def isabs_def initial_slashes_of_def numeral_2_eq_2)

lemma join_absolute: "isabs a \<Longrightarrow> isabs (join a b)"
  by (auto simp: join_def isabs_def)

lemma abspath_absolute: "isabs cwd \<Longrightarrow> isabs (abspath cwd path)"
  by (simp add: abspath_def normpath_absolute join_absolute)

lemma diffeoSymTensor3DVolTask_list_outputs_Some:
  assumes "inp ''out_path'' = Some v"
  shows "diffeoSymTensor3DVolTask_list_outputs inp = (Inr [''out_file'' \<mapsto> v], inp)"
  using assms
  by (simp add: diffeoSymTensor3DVolTask_list_outputs_def getattr_def bind_err_def
      diffeoSymTensor3DVolOutputSpec_def outputs_one)

lemma affSymTensor3DVolTask_list_outputs_Str:
  assumes "inp ''out_path'' = Some (Str p)"
  shows "affSymTensor3DVolTask_list_outputs cwd inp =
           (Inr [''out_file'' \<mapsto> Str (abspath cwd p)], inp)"
  using assms
  by (simp add: affSymTensor3DVolTask_list_outputs_def getattr_def bind_err_def
      abspath_val_def affSymTensor3DVolOutputSpec_def outputs_one)

lemma affScalarVolTask_list_outputs_Str:
  assumes "inp ''out_path'' = Some (Str p)"
  shows "affScalarVolTask_list_outputs cwd inp =
           (Inr [''out_file'' \<mapsto> Str (abspath cwd p)], inp)"
  using assms
  by (simp add: affScalarVolTask_list_outputs_def getattr_def bind_err_def
      abspath_val_def affScalarVolOutputSpec_def outputs_one)

lemma out_file_differs:
  assumes "a \<noteq> b"
  shows "[''out_file'' \<mapsto> Str a] \<noteq> [''out_file'' \<mapsto> Str b]"
proof
  assume "[''out_file'' \<mapsto> Str a] = [''out_file'' \<mapsto> Str b]"
  then have "[''out_file'' \<mapsto> Str a] ''out_file'' = [''out_file'' \<mapsto> Str b] ''out_file''"
    by (rule arg_cong)
  with assms show False by simp
qed

text \<open>
  Claim C9. For an \<^verbatim>\<open>out_path\<close> that is a string, \<^verbatim>\<open>diffeoSymTensor3DVolTask._list_outputs\<close>
  returns it as it is, while \<^verbatim>\<open>affSymTensor3DVolTask\<close> and \<^verbatim>\<open>affScalarVolTask\<close> return
  its absolute path; so when \<^verbatim>\<open>out_path\<close> is relative (and the working directory is
  absolute, as \<^verbatim>\<open>os.getcwd()\<close> always is) the first result differs from the other two.
\<close>

theorem out_path_as_given_or_absolute:
  assumes "dinp ''out_path'' = Some (Str p)" and "ainp ''out_path'' = Some (Str p)"
    and "sinp ''out_path'' = Some (Str p)"
  shows "fst (diffeoSymTensor3DVolTask_list_outputs dinp) = Inr [''out_file'' \<mapsto> Str p]
       \<and> fst (affSymTensor3DVolTask_list_outputs cwd ainp) = Inr [''out_file'' \<mapsto> Str (abspath cwd p)]
       \<and> fst (affScalarVolTask_list_outputs cwd sinp) = Inr [''out_file'' \<mapsto> Str (abspath cwd p)]
       \<and> (isabs cwd \<and> \<not> isabs p \<longrightarrow>
            isabs (abspath cwd p)
          \<and> fst (diffeoSymTensor3DVolTask_list_outputs dinp)
              \<noteq> fst (affSymTensor3DVolTask_list_outputs cwd ainp)
          \<and> fst (diffeoSymTensor3DVolTask_list_outputs dinp)
              \<noteq> fst (affScalarVolTask_list_outputs cwd sinp))"
proof -
  have ne: "p \<noteq> abspath cwd p" if "isabs cwd" "\<not> isabs p"
    using abspath_absolute[OF that(1), of p] that(2) by auto
  have d: "fst (diffeoSymTensor3DVolTask_list_outputs dinp) = Inr [''out_file'' \<mapsto> Str p]"
    using assms(1) by (simp add: diffeoSymTensor3DVolTask_list_outputs_Some)
  have a: "fst (affSymTensor3DVolTask_list_outputs cwd ainp)
           = Inr [''out_file'' \<mapsto> Str (abspath cwd p)]"
    using assms(2) by (simp add: affSymTensor3DVolTask_list_outputs_Str)
  have s: "fst (affScalarVolTask_list_outputs cwd sinp)
           = Inr [''out_file'' \<mapsto> Str (abspath cwd p)]"
    using assms(3) by (simp add: affScalarVolTask_list_outputs_Str)
  show ?thesis
    unfolding d a s using ne by (simp add: abspath_absolute out_file_differs)
qed

theorem out_path_as_given_or_absolute_witness:
  "fst (diffeoSymTensor3DVolTask_list_outputs
          ((new_inputs diffeoSymTensor3DVolInputSpec)(''out_path'' \<mapsto> Str ''out/moved.nii.gz'')))
     = Inr [''out_file'' \<mapsto> Str ''out/moved.nii.gz'']
   \<and> fst (affSymTensor3DVolTask_list_outputs ''/home/user''
          ((new_inputs affSymTensor3DVolInputSpec)(''out_path'' \<mapsto> Str ''out/moved.nii.gz'')))
     = Inr [''out_file'' \<mapsto> Str ''/home/user/out/moved.nii.gz'']
   \<and> fst (affScalarVolTask_list_outputs ''/home/user''
          ((new_inputs affScalarVolInputSpec)(''out_path'' \<mapsto> Str ''out/moved.nii.gz'')))
     = Inr [''out_file'' \<mapsto> Str ''/home/user/out/moved.nii.gz'']
   \<and> fst (diffeoSymTensor3DVolTask_list_outputs
          ((new_inputs diffeoSymTensor3DVolInputSpec)(''out_path'' \<mapsto> Str ''out/moved.nii.gz'')))
     \<noteq> fst (affSymTensor3DVolTask_list_outputs ''/home/user''
          ((new_inputs affSymTensor3DVolInputSpec)(''out_path'' \<mapsto> Str ''out/moved.nii.gz'')))
   \<and> fst (diffeoSymTensor3DVolTask_list_outputs
          ((new_inputs diffeoSymTensor3DVolInputSpec)(''out_path'' \<mapsto> Str ''out/moved.nii.gz'')))
     \<noteq> fst (affScalarVolTask_list_outputs ''/home/user''
          ((new_inputs affScalarVolInputSpec)(''out_path'' \<mapsto> Str ''out/moved.nii.gz'')))"
proof -
  have a: "abspath ''/home/user'' ''out/moved.nii.gz'' = ''/home/user/out/moved.nii.gz''"
    by code_simp
  have c: "isabs ''/home/user''" and r: "\<not> isabs ''out/moved.nii.gz''"
    by (simp_all add: isabs_def)
  have d: "((new_inputs diffeoSymTensor3DVolInputSpec)(''out_path'' \<mapsto> Str ''out/moved.nii.gz''))
             ''out_path'' = Some (Str ''out/moved.nii.gz'')"
    by simp
  have s: "((new_inputs affSymTensor3DVolInputSpec)(''out_path'' \<mapsto> Str ''out/moved.nii.gz''))
             ''out_path'' = Some (Str ''out/moved.nii.gz'')"
    by simp
  have v: "((new_inputs affScalarVolInputSpec)(''out_path'' \<mapsto> Str ''out/moved.nii.gz''))
             ''out_path'' = Some (Str ''out/moved.nii.gz'')"
    by simp
  from out_path_as_given_or_absolute[
      where dinp = "(new_inputs diffeoSymTensor3DVolInputSpec)(''out_path'' \<mapsto> Str ''out/moved.nii.gz'')"
        and ainp = "(new_inputs affSymTensor3DVolInputSpec)(''out_path'' \<mapsto> Str ''out/moved.nii.gz'')"
        and sinp = "(new_inputs affScalarVolInputSpec)(''out_path'' \<mapsto> Str ''out/moved.nii.gz'')"
        and p = "''out/moved.nii.gz''" and cwd = "''/home/user''", OF d s v] c r
  show ?thesis unfolding a by blast
qed


section \<open>The diffeomorphic transform of a scalar volume\<close>

lemma diffeoScalarVolTask_out_path_defined:
  assumes "inp ''out_path'' = Some (Str p)"
  shows "diffeoScalarVolTask_list_outputs cwd inp =
           (Inr [''out_file'' \<mapsto> Str (abspath cwd p)], inp)"
  using assms
  by (simp add: diffeoScalarVolTask_list_outputs_def getattr_def isdefined_def bind_err_def
      abspath_val_def diffeoScalarVolOutputSpec_def outputs_one)

lemma setattr_out_path_Str:
  "setattr diffeoScalarVolInputSpec inp ''out_path'' (Str name)
   = (Inr (), inp(''out_path'' \<mapsto> Str name))"
  by (simp add: setattr_def diffeoScalarVolInputSpec_def validate_def traits_Str_named_def
      traits_Str_def)

lemma diffeoScalarVolTask_fill_out_path_Str:
  assumes "inp ''in_volume'' = Some (Str v)"
  shows "diffeoScalarVolTask_fill_out_path cwd inp =
           (Inr (), inp(''out_path'' \<mapsto>
              Str (fname_presuffix cwd v [] ''_diffeoxfmd'' (Some (abspath cwd ''.'')) True)))"
  using assms
  by (simp add: diffeoScalarVolTask_fill_out_path_def getattr_def fname_presuffix_val_def
      setattr_out_path_Str)

lemma diffeoScalarVolTask_out_path_undefined:
  assumes "inp ''in_volume'' = Some (Str v)" and "inp ''out_path'' = Some Undefined"
  shows "diffeoScalarVolTask_list_outputs cwd inp =
           (Inr [''out_file'' \<mapsto>
              Str (abspath cwd
                (fname_presuffix cwd v [] ''_diffeoxfmd'' (Some (abspath cwd ''.'')) True))],
            inp(''out_path'' \<mapsto>
              Str (fname_presuffix cwd v [] ''_diffeoxfmd'' (Some (abspath cwd ''.'')) True)))"
  using assms
  by (simp add: diffeoScalarVolTask_list_outputs_def getattr_def isdefined_def bind_err_def
      abspath_val_def diffeoScalarVolOutputSpec_def outputs_one
      diffeoScalarVolTask_fill_out_path_Str)

lemma fname_presuffix_newpath:
  "fname_presuffix cwd v pre suf (Some (abspath cwd np)) True
   = join (abspath cwd (abspath cwd np))
       (pre @ fst (snd (split_filename v)) @ suf @ snd (snd (split_filename v)))"
  by (simp add: fname_presuffix_def abspath_def normpath_nonempty split: prod.splits)

lemma diffeoScalarVolTask_fill_out_path_frame:
  "name \<noteq> ''out_path'' \<Longrightarrow> snd (diffeoScalarVolTask_fill_out_path cwd inp) name = inp name"
  by (simp add: diffeoScalarVolTask_fill_out_path_def setattr_out_path_Str
      split: sum.splits)

lemma diffeoScalarVolTask_frame:
  "name \<noteq> ''out_path'' \<Longrightarrow> snd (diffeoScalarVolTask_list_outputs cwd inp) name = inp name"
  using diffeoScalarVolTask_fill_out_path_frame[of name cwd inp]
  by (auto simp: diffeoScalarVolTask_list_outputs_def split: sum.splits prod.splits)

lemma diffeoScalarVolTask_unchanged:
  assumes "inp ''out_path'' \<noteq> Some Undefined"
  shows "snd (diffeoScalarVolTask_list_outputs cwd inp) = inp"
proof (cases "inp ''out_path''")
  case None
  then show ?thesis
    by (simp add: diffeoScalarVolTask_list_outputs_def getattr_def)
next
  case (Some v)
  with assms obtain p where "v = Str p" by (cases v) auto
  with Some show ?thesis by (simp add: diffeoScalarVolTask_out_path_defined)
qed


section \<open>What \<^verbatim>\<open>_list_outputs\<close> does to the inputs\<close>

text \<open>
  Claim C3 says that no \<^verbatim>\<open>_list_outputs\<close> assigns to the inputs. It fails for
  \<^verbatim>\<open>diffeoScalarVolTask\<close>: with \<^verbatim>\<open>in_volume\<close> set and \<^verbatim>\<open>out_path\<close> undefined, the method
  stores the name it generates in \<^verbatim>\<open>self.inputs.out_path\<close>, so the inputs after the
  call differ from the inputs before.
\<close>

theorem list_outputs_assigns_out_path_counterexample:
  "snd (diffeoScalarVolTask_list_outputs ''/home/user''
          ((new_inputs diffeoScalarVolInputSpec)(''in_volume'' \<mapsto> Str ''fa.nii.gz'')))
   \<noteq> (new_inputs diffeoScalarVolInputSpec)(''in_volume'' \<mapsto> Str ''fa.nii.gz'')"
proof
  let ?inp = "(new_inputs diffeoScalarVolInputSpec)(''in_volume'' \<mapsto> Str ''fa.nii.gz'')"
  assume "snd (diffeoScalarVolTask_list_outputs ''/home/user'' ?inp) = ?inp"
  then have "snd (diffeoScalarVolTask_list_outputs ''/home/user'' ?inp) ''out_path''
             = ?inp ''out_path''"
    by (rule arg_cong)
  moreover have "?inp ''in_volume'' = Some (Str ''fa.nii.gz'')" by simp
  moreover have "?inp ''out_path'' = Some Undefined"
    by (simp add: new_inputs_def diffeoScalarVolInputSpec_def)
  ultimately show False
    by (simp add: diffeoScalarVolTask_out_path_undefined)
qed

text \<open>
  Claim C3, amended. \<^verbatim>\<open>_list_outputs\<close> of every task but \<^verbatim>\<open>diffeoScalarVolTask\<close> leaves the
  inputs as they are, in every state. \<^verbatim>\<open>diffeoScalarVolTask._list_outputs\<close> leaves them as they are when
  \<^verbatim>\<open>out_path\<close> is not \<^verbatim>\<open>Undefined\<close>; otherwise it changes no field other than
  \<^verbatim>\<open>out_path\<close>.
\<close>

theorem list_outputs_frame:
  "snd (RigidTask_list_outputs inp) = inp
   \<and> snd (AffineTask_list_outputs inp) = inp
   \<and> snd (DiffeoTask_list_outputs inp) = inp
   \<and> snd (ComposeXfmTask_list_outputs inp) = inp
   \<and> snd (diffeoSymTensor3DVolTask_list_outputs inp) = inp
   \<and> snd (affSymTensor3DVolTask_list_outputs cwd inp) = inp
   \<and> snd (affScalarVolTask_list_outputs cwd inp) = inp
   \<and> (inp ''out_path'' \<noteq> Some Undefined \<longrightarrow>
        snd (diffeoScalarVolTask_list_outputs cwd inp) = inp)
   \<and> (\<forall>name. name \<noteq> ''out_path'' \<longrightarrow>
        snd (diffeoScalarVolTask_list_outputs cwd inp) name = inp name)"
proof -
  have "snd (RigidTask_list_outputs inp) = inp"
    by (simp add: RigidTask_list_outputs_def)
  moreover have "snd (AffineTask_list_outputs inp) = inp"
    by (simp add: AffineTask_list_outputs_def)
  moreover have "snd (DiffeoTask_list_outputs inp) = inp"
    by (simp add: DiffeoTask_list_outputs_def)
  moreover have "snd (ComposeXfmTask_list_outputs inp) = inp"
    by (simp add: ComposeXfmTask_list_outputs_def)
  moreover have "snd (diffeoSymTensor3DVolTask_list_outputs inp) = inp"
    by (simp add: diffeoSymTensor3DVolTask_list_outputs_def)
  moreover have "snd (affSymTensor3DVolTask_list_outputs cwd inp) = inp"
    by (simp add: affSymTensor3DVolTask_list_outputs_def)
  moreover have "snd (affScalarVolTask_list_outputs cwd inp) = inp"
    by (simp add: affScalarVolTask_list_outputs_def)
  ultimately show ?thesis
    by (simp add: diffeoScalarVolTask_unchanged diffeoScalarVolTask_frame)
qed

theorem list_outputs_frame_witness:
  "snd (AffineTask_list_outputs
          ((new_inputs AffineInputSpec)(''in_fixed_tensor'' \<mapsto> Str ''diffusion.nii'')))
     = (new_inputs AffineInputSpec)(''in_fixed_tensor'' \<mapsto> Str ''diffusion.nii'')
   \<and> snd (diffeoScalarVolTask_list_outputs ''/home/user''
          ((new_inputs diffeoScalarVolInputSpec)
             (''in_volume'' \<mapsto> Str ''fa.nii.gz'', ''out_path'' \<mapsto> Str ''moved.nii.gz'')))
     = (new_inputs diffeoScalarVolInputSpec)
             (''in_volume'' \<mapsto> Str ''fa.nii.gz'', ''out_path'' \<mapsto> Str ''moved.nii.gz'')
   \<and> snd (diffeoScalarVolTask_list_outputs ''/home/user''
          ((new_inputs diffeoScalarVolInputSpec)(''in_volume'' \<mapsto> Str ''fa.nii.gz'')))
        ''in_volume''
     = Some (Str ''fa.nii.gz'')"
proof -
  have a: "snd (AffineTask_list_outputs
          ((new_inputs AffineInputSpec)(''in_fixed_tensor'' \<mapsto> Str ''diffusion.nii'')))
     = (new_inputs AffineInputSpec)(''in_fixed_tensor'' \<mapsto> Str ''diffusion.nii'')"
    using list_outputs_frame[of
        "(new_inputs AffineInputSpec)(''in_fixed_tensor'' \<mapsto> Str ''diffusion.nii'')" "''/home/user''"]
    by simp
  have d: "((new_inputs diffeoScalarVolInputSpec)
             (''in_volume'' \<mapsto> Str ''fa.nii.gz'', ''out_path'' \<mapsto> Str ''moved.nii.gz''))
           ''out_path'' \<noteq> Some Undefined"
    by simp
  have b: "snd (diffeoScalarVolTask_list_outputs ''/home/user''
          ((new_inputs diffeoScalarVolInputSpec)
             (''in_volume'' \<mapsto> Str ''fa.nii.gz'', ''out_path'' \<mapsto> Str ''moved.nii.gz'')))
     = (new_inputs diffeoScalarVolInputSpec)
             (''in_volume'' \<mapsto> Str ''fa.nii.gz'', ''out_path'' \<mapsto> Str ''moved.nii.gz'')"
    using list_outputs_frame[of
        "(new_inputs diffeoScalarVolInputSpec)
             (''in_volume'' \<mapsto> Str ''fa.nii.gz'', ''out_path'' \<mapsto> Str ''moved.nii.gz'')"
        "''/home/user''"] d
    by simp
  have n: "''in_volume'' \<noteq> ''out_path''" by simp
  have c: "snd (diffeoScalarVolTask_list_outputs ''/home/user''
          ((new_inputs diffeoScalarVolInputSpec)(''in_volume'' \<mapsto> Str ''fa.nii.gz'')))
        ''in_volume''
     = ((new_inputs diffeoScalarVolInputSpec)(''in_volume'' \<mapsto> Str ''fa.nii.gz'')) ''in_volume''"
    using list_outputs_frame[of
        "(new_inputs diffeoScalarVolInputSpec)(''in_volume'' \<mapsto> Str ''fa.nii.gz'')"
        "''/home/user''"] n
    by simp
  from a b c show ?thesis by (simp only: fun_upd_same simp_thms)
qed


section \<open>Assigning the similarity metric\<close>

lemma Rigid_similarity_metric:
  "map_of RigidInputSpec ''similarity_metric''
   = Some (traits_Enum [''EDS'', ''GDS'', ''DDS'', ''NMI''])"
  by (simp add: RigidInputSpec_def)

lemma Affine_in_similarity_metric:
  "map_of AffineInputSpec ''in_similarity_metric''
   = Some (traits_Enum [''EDS'', ''GDS'', ''DDS'', ''NMI''])"
  by (simp add: AffineInputSpec_def)

lemma setattr_Enum:
  assumes "map_of spec name = Some (traits_Enum values)"
  shows "setattr spec inp name (Str s) =
           (if s \<in> set values then (Inr (), inp(name \<mapsto> Str s))
            else (Inl (TraitError name), inp))"
  using assms by (simp add: setattr_def validate_def traits_Enum_def)

lemma setattr_Undefined:
  assumes "map_of spec name = Some t"
  shows "setattr spec inp name Undefined = (Inr (), inp(name \<mapsto> Undefined))"
  using assms by (simp add: setattr_def validate_def)

text \<open>
  Claim C10 says that assigning \<^verbatim>\<open>similarity_metric\<close> of a \<^verbatim>\<open>RigidTask\<close> succeeds
  only if the value is one of \<^verbatim>\<open>EDS\<close>, \<^verbatim>\<open>GDS\<close>, \<^verbatim>\<open>DDS\<close>, \<^verbatim>\<open>NMI\<close>. It fails for
  the value \<^verbatim>\<open>Undefined\<close>: it is none of the four strings, and assigning it
  succeeds and resets the field.
\<close>

theorem similarity_metric_undefined_counterexample:
  "setattr RigidInputSpec
      ((new_inputs RigidInputSpec)(''similarity_metric'' \<mapsto> Str ''EDS''))
      ''similarity_metric'' Undefined
     = (Inr (), (new_inputs RigidInputSpec)(''similarity_metric'' \<mapsto> Undefined))
   \<and> Undefined \<notin> {Str ''EDS'', Str ''GDS'', Str ''DDS'', Str ''NMI''}"
  by (simp add: setattr_Undefined[OF Rigid_similarity_metric])

text \<open>
  Claim C10, amended. Assigning a value to \<^verbatim>\<open>similarity_metric\<close> of a \<^verbatim>\<open>RigidTask\<close>,
  or to \<^verbatim>\<open>in_similarity_metric\<close> of an \<^verbatim>\<open>AffineTask\<close>, succeeds if and only if the
  value is one of the strings \<^verbatim>\<open>EDS\<close>, \<^verbatim>\<open>GDS\<close>, \<^verbatim>\<open>DDS\<close>, \<^verbatim>\<open>NMI\<close> or is
  \<^verbatim>\<open>Undefined\<close>; then the field holds the value. Any other string is refused with
  an error and the inputs stay as they were.
\<close>

theorem similarity_metric_assignment:
  "(fst (setattr RigidInputSpec rinp ''similarity_metric'' v) = Inr ()
      \<longleftrightarrow> v \<in> {Undefined, Str ''EDS'', Str ''GDS'', Str ''DDS'', Str ''NMI''})
   \<and> (fst (setattr AffineInputSpec ainp ''in_similarity_metric'' v) = Inr ()
      \<longleftrightarrow> v \<in> {Undefined, Str ''EDS'', Str ''GDS'', Str ''DDS'', Str ''NMI''})
   \<and> (v \<in> {Undefined, Str ''EDS'', Str ''GDS'', Str ''DDS'', Str ''NMI''} \<longrightarrow>
        setattr RigidInputSpec rinp ''similarity_metric'' v
          = (Inr (), rinp(''similarity_metric'' \<mapsto> v))
      \<and> setattr AffineInputSpec ainp ''in_similarity_metric'' v
          = (Inr (), ainp(''in_similarity_metric'' \<mapsto> v)))
   \<and> (v \<notin> {Undefined, Str ''EDS'', Str ''GDS'', Str ''DDS'', Str ''NMI''} \<longrightarrow>
        setattr RigidInputSpec rinp ''similarity_metric'' v
          = (Inl (TraitError ''similarity_metric''), rinp)
      \<and> setattr AffineInputSpec ainp ''in_similarity_metric'' v
          = (Inl (TraitError ''in_similarity_metric''), ainp))"
proof (cases v)
  case Undefined
  then show ?thesis
    by (simp add: setattr_Undefined[OF Rigid_similarity_metric]
        setattr_Undefined[OF Affine_in_similarity_metric])
next
  case (Str s)
  then show ?thesis
    by (simp add: setattr_Enum[OF Rigid_similarity_metric]
        setattr_Enum[OF Affine_in_similarity_metric])
qed

theorem similarity_metric_assignment_witness:
  "setattr RigidInputSpec (new_inputs RigidInputSpec) ''similarity_metric'' (Str ''EDS'')
     = (Inr (), (new_inputs RigidInputSpec)(''similarity_metric'' \<mapsto> Str ''EDS''))
   \<and> setattr AffineInputSpec (new_inputs AffineInputSpec) ''in_similarity_metric'' Undefined
     = (Inr (), (new_inputs AffineInputSpec)(''in_similarity_metric'' \<mapsto> Undefined))
   \<and> setattr RigidInputSpec (new_inputs RigidInputSpec) ''similarity_metric'' (Str ''eds'')
     = (Inl (TraitError ''similarity_metric''), new_inputs RigidInputSpec)
   \<and> setattr AffineInputSpec (new_inputs AffineInputSpec) ''in_similarity_metric'' (Str ''SSD'')
     = (Inl (TraitError ''in_similarity_metric''), new_inputs AffineInputSpec)"
proof -
  have "setattr RigidInputSpec (new_inputs RigidInputSpec) ''similarity_metric'' (Str ''EDS'')
     = (Inr (), (new_inputs RigidInputSpec)(''similarity_metric'' \<mapsto> Str ''EDS''))"
    using similarity_metric_assignment[of "new_inputs RigidInputSpec" "Str ''EDS''" "new_inputs AffineInputSpec"]
    by simp
  moreover have "setattr AffineInputSpec (new_inputs AffineInputSpec) ''in_similarity_metric'' Undefined
     = (Inr (), (new_inputs AffineInputSpec)(''in_similarity_metric'' \<mapsto> Undefined))"
    using similarity_metric_assignment[of "new_inputs RigidInputSpec" Undefined "new_inputs AffineInputSpec"]
    by simp
  moreover have "setattr RigidInputSpec (new_inputs RigidInputSpec) ''similarity_metric'' (Str ''eds'')
     = (Inl (TraitError ''similarity_metric''), new_inputs RigidInputSpec)"
    using similarity_metric_assignment[of "new_inputs RigidInputSpec" "Str ''eds''" "new_inputs AffineInputSpec"]
    by simp
  moreover have "setattr AffineInputSpec (new_inputs AffineInputSpec) ''in_similarity_metric'' (Str ''SSD'')
     = (Inl (TraitError ''in_similarity_metric''), new_inputs AffineInputSpec)"
    using similarity_metric_assignment[of "new_inputs RigidInputSpec" "Str ''SSD''" "new_inputs AffineInputSpec"]
    by simp
  ultimately show ?thesis by (intro conjI)
qed


section \<open>Splitting and joining at the slash\<close>

lemma str_split_nonempty: "str_split c s \<noteq> []"
  by (induction s) (auto split: list.splits)

lemma str_split_append_sep: "str_split c (a @ c # b) = str_split c a @ str_split c b"
proof (induction a)
  case Nil
  show ?case by simp
next
  case (Cons x xs)
  obtain w ws where s: "str_split c xs = w # ws"
    using str_split_nonempty[of c xs] by (cases "str_split c xs") auto
  show ?case using Cons s by simp
qed

lemma str_split_no_sep: "c \<notin> set s \<Longrightarrow> str_split c s = [s]"
  by (induction s) auto

lemma str_split_sep_free: "w \<in> set (str_split c s) \<Longrightarrow> c \<notin> set w"
proof (induction s arbitrary: w)
  case Nil
  then show ?case by simp
next
  case (Cons x xs)
  obtain v vs where s: "str_split c xs = v # vs"
    using str_split_nonempty[of c xs] by (cases "str_split c xs") auto
  show ?case
  proof (cases "x = c")
    case True
    with Cons show ?thesis by auto
  next
    case False
    with Cons.prems s have "w = x # v \<or> w \<in> set vs" by simp
    then show ?thesis
    proof
      assume "w = x # v"
      moreover have "c \<notin> set v" using Cons.IH[of v] s by simp
      ultimately show ?thesis using False by auto
    next
      assume "w \<in> set vs"
      then show ?thesis using Cons.IH[of w] s by simp
    qed
  qed
qed

lemma str_split_slashes:
  "str_split CHR ''/'' (replicate k CHR ''/'' @ s) = replicate k [] @ str_split CHR ''/'' s"
  by (induction k) auto

lemma str_split_str_join:
  assumes "T \<noteq> []" and "\<forall>w\<in>set T. CHR ''/'' \<notin> set w"
  shows "str_split CHR ''/'' (str_join ''/'' T) = T"
  using assms
proof (induction T rule: induct_list012)
  case 1
  then show ?case by simp
next
  case (2 w)
  then show ?case by (simp add: str_split_no_sep)
next
  case (3 w v ws)
  have "str_split CHR ''/'' (w @ CHR ''/'' # str_join ''/'' (v # ws))
        = str_split CHR ''/'' w @ str_split CHR ''/'' (str_join ''/'' (v # ws))"
    by (rule str_split_append_sep)
  moreover have "str_split CHR ''/'' w = [w]" using "3.prems" by (simp add: str_split_no_sep)
  moreover have "str_split CHR ''/'' (str_join ''/'' (v # ws)) = v # ws"
    using "3.prems" by (intro "3.IH"(2)) simp_all
  ultimately show ?case by simp
qed

lemma str_join_no_leading_slash:
  assumes "\<forall>w\<in>set T. w \<noteq> [] \<and> CHR ''/'' \<notin> set w"
  shows "\<not> prefix ''/'' (str_join ''/'' T)"
  using assms
proof (induction T rule: induct_list012)
  case 1
  show ?case by simp
next
  case (2 w)
  then show ?case by (cases w) auto
next
  case (3 w v ws)
  then show ?case by (cases w) auto
qed


section \<open>Normalised absolute paths\<close>

lemma normpath_step_empty: "normpath_step k S [] = S"
  by (simp add: normpath_step_def)

lemma normpath_step_dot: "normpath_step k S ''.'' = S"
  by (simp add: normpath_step_def)

lemma foldl_normpath_step_empties: "foldl (normpath_step k) S (replicate j []) = S"
  by (induction j) (auto simp: normpath_step_empty)

lemma normpath_step_kept:
  assumes "0 < k"
    and "\<forall>w\<in>set S. w \<noteq> [] \<and> w \<noteq> ''.'' \<and> w \<noteq> ''..'' \<and> CHR ''/'' \<notin> set w"
    and "CHR ''/'' \<notin> set part"
  shows "\<forall>w\<in>set (normpath_step k S part).
           w \<noteq> [] \<and> w \<noteq> ''.'' \<and> w \<noteq> ''..'' \<and> CHR ''/'' \<notin> set w"
proof -
  have l: "S \<noteq> [] \<Longrightarrow> last S \<noteq> ''..''"
    using assms(2) last_in_set by blast
  have b: "set (butlast S) \<subseteq> set S"
    by (auto dest: in_set_butlastD)
  show ?thesis
    unfolding normpath_step_def using assms l b by auto
qed

lemma foldl_normpath_step_kept:
  assumes "0 < k"
    and "\<forall>w\<in>set S. w \<noteq> [] \<and> w \<noteq> ''.'' \<and> w \<noteq> ''..'' \<and> CHR ''/'' \<notin> set w"
    and "\<forall>p\<in>set parts. CHR ''/'' \<notin> set p"
  shows "\<forall>w\<in>set (foldl (normpath_step k) S parts).
           w \<noteq> [] \<and> w \<noteq> ''.'' \<and> w \<noteq> ''..'' \<and> CHR ''/'' \<notin> set w"
  using assms(2,3)
proof (induction parts arbitrary: S)
  case Nil
  then show ?case by simp
next
  case (Cons p ps)
  have p: "CHR ''/'' \<notin> set p" and ps: "\<forall>p\<in>set ps. CHR ''/'' \<notin> set p"
    using Cons.prems(2) by simp_all
  have "\<forall>w\<in>set (normpath_step k S p).
          w \<noteq> [] \<and> w \<noteq> ''.'' \<and> w \<noteq> ''..'' \<and> CHR ''/'' \<notin> set w"
    using assms(1) Cons.prems(1) p by (rule normpath_step_kept)
  then have "\<forall>w\<in>set (foldl (normpath_step k) (normpath_step k S p) ps).
          w \<noteq> [] \<and> w \<noteq> ''.'' \<and> w \<noteq> ''..'' \<and> CHR ''/'' \<notin> set w"
    using ps by (rule Cons.IH)
  then show ?case by (simp only: foldl_Cons)
qed

lemma foldl_normpath_step_plain:
  assumes "\<forall>w\<in>set T. w \<noteq> [] \<and> w \<noteq> ''.'' \<and> w \<noteq> ''..''"
  shows "foldl (normpath_step k) S T = S @ T"
  using assms
proof (induction T arbitrary: S)
  case Nil
  show ?case by simp
next
  case (Cons w ws)
  then have "normpath_step k S w = S @ [w]" by (simp add: normpath_step_def)
  with Cons show ?case by simp
qed

lemma foldl_normpath_step_str_join:
  assumes "\<forall>w\<in>set T. w \<noteq> [] \<and> w \<noteq> ''.'' \<and> w \<noteq> ''..'' \<and> CHR ''/'' \<notin> set w"
  shows "foldl (normpath_step k) [] (str_split CHR ''/'' (str_join ''/'' T)) = T"
proof (cases "T = []")
  case True
  then show ?thesis by (simp add: normpath_step_empty)
next
  case False
  with assms have "str_split CHR ''/'' (str_join ''/'' T) = T"
    by (intro str_split_str_join) simp_all
  moreover have "foldl (normpath_step k) [] T = [] @ T"
    using assms by (intro foldl_normpath_step_plain) simp
  ultimately show ?thesis by simp
qed

lemma initial_slashes_of_abs:
  "isabs a \<Longrightarrow> initial_slashes_of a = 1 \<or> initial_slashes_of a = 2"
  by (simp add: initial_slashes_of_def isabs_def)

lemma normpath_abs_form:
  assumes "isabs a"
  shows "normpath a =
           replicate (initial_slashes_of a) CHR ''/''
           @ str_join ''/'' (foldl (normpath_step (initial_slashes_of a)) []
                               (str_split CHR ''/'' a))"
proof -
  have "a \<noteq> []" using assms by (auto simp: isabs_def)
  moreover have "replicate (initial_slashes_of a) CHR ''/'' \<noteq> []"
    using initial_slashes_of_abs[OF assms] by auto
  ultimately show ?thesis by (simp add: normpath_def Let_def)
qed

lemma initial_slashes_of_normal:
  assumes "k = 1 \<or> k = 2" and "\<forall>w\<in>set T. w \<noteq> [] \<and> CHR ''/'' \<notin> set w"
  shows "initial_slashes_of (replicate k CHR ''/'' @ str_join ''/'' T) = k"
proof -
  have n: "\<not> prefix ''/'' (str_join ''/'' T)"
    using assms(2) by (rule str_join_no_leading_slash)
  from assms(1) show ?thesis
  proof
    assume "k = 1"
    then show ?thesis using n by (simp add: initial_slashes_of_def)
  next
    assume "k = 2"
    then show ?thesis using n by (simp add: initial_slashes_of_def numeral_2_eq_2)
  qed
qed

lemma normpath_components_kept:
  assumes "isabs a"
  shows "\<forall>w\<in>set (foldl (normpath_step (initial_slashes_of a)) [] (str_split CHR ''/'' a)).
           w \<noteq> [] \<and> w \<noteq> ''.'' \<and> w \<noteq> ''..'' \<and> CHR ''/'' \<notin> set w"
proof (rule foldl_normpath_step_kept)
  show "0 < initial_slashes_of a" using initial_slashes_of_abs[OF assms] by auto
  show "\<forall>w\<in>set []. w \<noteq> [] \<and> w \<noteq> ''.'' \<and> w \<noteq> ''..'' \<and> CHR ''/'' \<notin> set w"
    by simp
  show "\<forall>p\<in>set (str_split CHR ''/'' a). CHR ''/'' \<notin> set p"
    using str_split_sep_free by blast
qed

lemma normpath_normal:
  assumes "isabs a"
  shows "initial_slashes_of (normpath a) = initial_slashes_of a"
    and "foldl (normpath_step (initial_slashes_of a)) [] (str_split CHR ''/'' (normpath a))
         = foldl (normpath_step (initial_slashes_of a)) [] (str_split CHR ''/'' a)"
proof -
  let ?k = "initial_slashes_of a"
  let ?S = "foldl (normpath_step ?k) [] (str_split CHR ''/'' a)"
  have form: "normpath a = replicate ?k CHR ''/'' @ str_join ''/'' ?S"
    using assms by (rule normpath_abs_form)
  have kept: "\<forall>w\<in>set ?S. w \<noteq> [] \<and> w \<noteq> ''.'' \<and> w \<noteq> ''..'' \<and> CHR ''/'' \<notin> set w"
    using assms by (rule normpath_components_kept)
  have k: "?k = 1 \<or> ?k = 2" using assms by (rule initial_slashes_of_abs)
  have "initial_slashes_of (replicate ?k CHR ''/'' @ str_join ''/'' ?S) = ?k"
    using k kept by (intro initial_slashes_of_normal) blast+
  then show "initial_slashes_of (normpath a) = ?k" by (simp only: form)
  have "foldl (normpath_step ?k) [] (str_split CHR ''/'' (replicate ?k CHR ''/'' @ str_join ''/'' ?S))
        = foldl (normpath_step ?k) (foldl (normpath_step ?k) [] (replicate ?k []))
            (str_split CHR ''/'' (str_join ''/'' ?S))"
    by (simp only: str_split_slashes foldl_append)
  also have "\<dots> = foldl (normpath_step ?k) [] (str_split CHR ''/'' (str_join ''/'' ?S))"
    by (simp only: foldl_normpath_step_empties)
  also have "\<dots> = ?S"
    using kept by (rule foldl_normpath_step_str_join)
  finally show "foldl (normpath_step ?k) [] (str_split CHR ''/'' (normpath a)) = ?S"
    by (simp only: form)
qed

lemma normpath_idem:
  assumes "isabs a"
  shows "normpath (normpath a) = normpath a"
proof -
  have abs: "isabs (normpath a)" using assms by (rule normpath_absolute)
  have "normpath (normpath a) =
          replicate (initial_slashes_of (normpath a)) CHR ''/''
          @ str_join ''/'' (foldl (normpath_step (initial_slashes_of (normpath a))) []
                              (str_split CHR ''/'' (normpath a)))"
    using abs by (rule normpath_abs_form)
  also have "\<dots> = replicate (initial_slashes_of a) CHR ''/''
          @ str_join ''/'' (foldl (normpath_step (initial_slashes_of a)) []
                              (str_split CHR ''/'' a))"
    by (simp only: normpath_normal[OF assms])
  also have "\<dots> = normpath a"
    using assms by (rule normpath_abs_form[symmetric])
  finally show ?thesis .
qed

lemma initial_slashes_of_join:
  assumes "isabs a" and "CHR ''/'' \<notin> set b"
  shows "initial_slashes_of (join a b) = initial_slashes_of a"
proof -
  have nb: "\<not> prefix ''/'' b" using assms(2) by (cases b) auto
  from assms(1) obtain r where a: "a = CHR ''/'' # r" by (cases a) (auto simp: isabs_def)
  show ?thesis
  proof (cases r)
    case Nil
    with a nb show ?thesis
      by (cases b) (auto simp: join_def initial_slashes_of_def)
  next
    case (Cons c r')
    show ?thesis
    proof (cases r')
      case Nil
      with a Cons nb assms(2) show ?thesis
        by (cases b) (auto simp: join_def initial_slashes_of_def suffix_def)
    next
      case (Cons d r'')
      with a \<open>r = c # r'\<close> nb show ?thesis
        by (auto simp: join_def initial_slashes_of_def)
    qed
  qed
qed

lemma foldl_normpath_step_join:
  assumes "a \<noteq> []" and "CHR ''/'' \<notin> set b"
  shows "foldl (normpath_step k) [] (str_split CHR ''/'' (join a b))
         = normpath_step k (foldl (normpath_step k) [] (str_split CHR ''/'' a)) b"
proof -
  have nb: "\<not> prefix ''/'' b" using assms(2) by (cases b) auto
  have sb: "str_split CHR ''/'' b = [b]" using assms(2) by (rule str_split_no_sep)
  show ?thesis
  proof (cases "suffix ''/'' a")
    case True
    then obtain a' where a: "a = a' @ ''/''" by (auto simp: suffix_def)
    have "join a b = a' @ CHR ''/'' # b" using a nb by (simp add: join_def)
    then have "str_split CHR ''/'' (join a b) = str_split CHR ''/'' a' @ [b]"
      by (simp only: str_split_append_sep sb)
    moreover have "str_split CHR ''/'' a = str_split CHR ''/'' a' @ [[]]"
      using a str_split_append_sep[of "CHR ''/''" a' "[]"] by simp
    ultimately show ?thesis by (simp add: normpath_step_empty)
  next
    case False
    then have "join a b = a @ CHR ''/'' # b" using assms(1) nb by (simp add: join_def)
    then have "str_split CHR ''/'' (join a b) = str_split CHR ''/'' a @ [b]"
      by (simp only: str_split_append_sep sb)
    then show ?thesis by simp
  qed
qed

lemma normpath_join:
  assumes "isabs a" and "CHR ''/'' \<notin> set b"
  shows "normpath (join a b) =
           replicate (initial_slashes_of a) CHR ''/''
           @ str_join ''/''
               (normpath_step (initial_slashes_of a)
                  (foldl (normpath_step (initial_slashes_of a)) [] (str_split CHR ''/'' a)) b)"
proof -
  have ne: "a \<noteq> []" using assms(1) by (auto simp: isabs_def)
  have "isabs (join a b)" using assms(1) by (rule join_absolute)
  then have "normpath (join a b) =
      replicate (initial_slashes_of (join a b)) CHR ''/''
      @ str_join ''/'' (foldl (normpath_step (initial_slashes_of (join a b))) []
                          (str_split CHR ''/'' (join a b)))"
    by (rule normpath_abs_form)
  then show ?thesis
    by (simp only: initial_slashes_of_join[OF assms] foldl_normpath_step_join[OF ne assms(2)])
qed

lemma abspath_dot:
  assumes "isabs cwd"
  shows "abspath cwd ''.'' = normpath cwd"
proof -
  have dot: "CHR ''/'' \<notin> set ''.''" by simp
  have "abspath cwd ''.'' = normpath (join cwd ''.'')"
    by (simp add: abspath_def isabs_def)
  also have "\<dots> = replicate (initial_slashes_of cwd) CHR ''/''
           @ str_join ''/''
               (normpath_step (initial_slashes_of cwd)
                  (foldl (normpath_step (initial_slashes_of cwd)) [] (str_split CHR ''/'' cwd)) ''.'')"
    using assms dot by (rule normpath_join)
  also have "\<dots> = normpath cwd"
    by (simp only: normpath_step_dot normpath_abs_form[OF assms])
  finally show ?thesis .
qed

lemma abspath_of_absolute: "isabs p \<Longrightarrow> abspath cwd p = normpath p"
  by (simp add: abspath_def)

lemma abspath_in_cwd:
  assumes "isabs cwd" and "CHR ''/'' \<notin> set name"
  shows "abspath cwd (join (abspath cwd (abspath cwd ''.'')) name) = abspath cwd name"
proof -
  let ?N = "normpath cwd"
  have absN: "isabs ?N" using assms(1) by (rule normpath_absolute)
  have "abspath cwd (abspath cwd ''.'') = abspath cwd ?N"
    by (simp only: abspath_dot[OF assms(1)])
  also have "\<dots> = normpath ?N" using absN by (rule abspath_of_absolute)
  also have "\<dots> = ?N" using assms(1) by (rule normpath_idem)
  finally have dir: "abspath cwd (abspath cwd ''.'') = ?N" .
  have "isabs (join ?N name)" using absN by (rule join_absolute)
  then have "abspath cwd (join ?N name) = normpath (join ?N name)"
    by (rule abspath_of_absolute)
  also have "\<dots> = replicate (initial_slashes_of ?N) CHR ''/''
           @ str_join ''/''
               (normpath_step (initial_slashes_of ?N)
                  (foldl (normpath_step (initial_slashes_of ?N)) [] (str_split CHR ''/'' ?N)) name)"
    using absN assms(2) by (rule normpath_join)
  also have "\<dots> = replicate (initial_slashes_of cwd) CHR ''/''
           @ str_join ''/''
               (normpath_step (initial_slashes_of cwd)
                  (foldl (normpath_step (initial_slashes_of cwd)) [] (str_split CHR ''/'' cwd)) name)"
    by (simp only: normpath_normal[OF assms(1)])
  also have "\<dots> = normpath (join cwd name)"
    using assms by (rule normpath_join[symmetric])
  also have "\<dots> = abspath cwd name"
  proof -
    have "\<not> isabs name" using assms(2) by (cases name) (auto simp: isabs_def)
    then show ?thesis by (simp add: abspath_def)
  qed
  finally show ?thesis by (simp only: dir)
qed


section \<open>The parts of a file name\<close>

lemma basename_no_slash: "CHR ''/'' \<notin> set (basename p)"
  by (auto simp: basename_def dest: set_takeWhileD)

lemma basename_of_name:
  assumes "CHR ''/'' \<notin> set name"
  shows "basename name = name"
proof -
  have "takeWhile (\<lambda>c. c \<noteq> CHR ''/'') (rev name) = rev name"
    using assms by (intro takeWhile_eq_all_conv[THEN iffD2]) auto
  then have "rev (takeWhile (\<lambda>c. c \<noteq> CHR ''/'') (rev name)) = rev (rev name)"
    by (rule arg_cong)
  then show ?thesis by (simp only: basename_def rev_rev_ident)
qed

lemma match_special_ext_Some:
  assumes "match_special_ext exts name = Some (stem, ext)"
  shows "stem @ ext = name"
  using assms
proof (induction exts)
  case Nil
  then show ?case by simp
next
  case (Cons e es)
  show ?case
  proof (cases "length name > length e
      \<and> str_lower (slice_last (length e) name) = str_lower e")
    case True
    with Cons.prems have "stem = slice_but_last (length e) name"
      and "ext = slice_last (length e) name"
      by (simp_all add: Let_def)
    then show ?thesis by (simp add: slice_but_last_def slice_last_def)
  next
    case False
    with Cons.prems have "match_special_ext es name = Some (stem, ext)"
      by (simp add: Let_def)
    then show ?thesis by (rule Cons.IH)
  qed
qed

lemma last_dot_split:
  assumes "CHR ''.'' \<in> set name"
  shows "take (length name - length (CHR ''.'' # rev (takeWhile (\<lambda>c. c \<noteq> CHR ''.'') (rev name)))) name
         @ CHR ''.'' # rev (takeWhile (\<lambda>c. c \<noteq> CHR ''.'') (rev name)) = name"
proof -
  let ?t = "takeWhile (\<lambda>c. c \<noteq> CHR ''.'') (rev name)"
  let ?d = "dropWhile (\<lambda>c. c \<noteq> CHR ''.'') (rev name)"
  have "?d \<noteq> []" using assms by simp
  moreover have "hd ?d = CHR ''.''"
    using \<open>?d \<noteq> []\<close> hd_dropWhile[of "\<lambda>c. c \<noteq> CHR ''.''" "rev name"] by auto
  ultimately obtain rest where d: "?d = CHR ''.'' # rest" by (cases ?d) auto
  have "rev name = ?t @ ?d" by simp
  then have "rev name = ?t @ CHR ''.'' # rest" by (simp only: d)
  then have "rev (rev name) = rev (?t @ CHR ''.'' # rest)" by (rule arg_cong)
  then have n: "name = rev rest @ CHR ''.'' # rev ?t" by simp
  have "length name = length rest + length (CHR ''.'' # rev ?t)"
    by (subst n) simp
  then have "take (length name - length (CHR ''.'' # rev ?t)) name = rev rest"
    by (subst (2) n) simp
  then show ?thesis using n by simp
qed

lemma splitext_parts:
  assumes "CHR ''/'' \<notin> set name"
  shows "fst (splitext name) @ snd (splitext name) = name"
proof (cases "CHR ''.'' \<in> set name")
  case True
  then show ?thesis
    using last_dot_split[OF True] by (simp add: splitext_def Let_def basename_of_name[OF assms])
next
  case False
  then show ?thesis by (simp add: splitext_def Let_def basename_of_name[OF assms])
qed

lemma split_filename_basename:
  "fst (snd (split_filename v)) @ snd (snd (split_filename v)) = basename v"
proof (cases "match_special_ext special_extensions (basename v)")
  case None
  then show ?thesis
    by (simp add: split_filename_def Let_def splitext_parts[OF basename_no_slash])
next
  case (Some r)
  obtain stem ext where r: "r = (stem, ext)" by (cases r)
  with Some have "stem @ ext = basename v" by (intro match_special_ext_Some) simp
  with Some r show ?thesis by (simp add: split_filename_def Let_def)
qed

lemma split_filename_no_slash:
  "CHR ''/'' \<notin> set (fst (snd (split_filename v)) @ suf @ snd (snd (split_filename v)))
   \<longleftrightarrow> CHR ''/'' \<notin> set suf"
proof -
  have "set (fst (snd (split_filename v))) \<union> set (snd (snd (split_filename v)))
        = set (basename v)"
    using split_filename_basename[of v] by (metis set_append)
  then show ?thesis using basename_no_slash[of v] by auto
qed


section \<open>The output name of the transformed scalar volume\<close>

lemma fname_presuffix_in_cwd:
  assumes "isabs cwd" and "CHR ''/'' \<notin> set suf"
  shows "abspath cwd (fname_presuffix cwd v [] suf (Some (abspath cwd ''.'')) True)
         = abspath cwd (fst (snd (split_filename v)) @ suf @ snd (snd (split_filename v)))"
proof -
  have n: "CHR ''/'' \<notin> set (fst (snd (split_filename v)) @ suf @ snd (snd (split_filename v)))"
    using assms(2) by (rule split_filename_no_slash[THEN iffD2])
  have "fname_presuffix cwd v [] suf (Some (abspath cwd ''.'')) True
        = join (abspath cwd (abspath cwd ''.''))
            ([] @ fst (snd (split_filename v)) @ suf @ snd (snd (split_filename v)))"
    by (rule fname_presuffix_newpath)
  then show ?thesis
    using abspath_in_cwd[OF assms(1) n] by (simp only: append_Nil)
qed

text \<open>
  Claim C7. For a \<^verbatim>\<open>diffeoScalarVolTask\<close> whose \<^verbatim>\<open>in_volume\<close> is set and whose \<^verbatim>\<open>out_path\<close>
  is undefined, \<^verbatim>\<open>_list_outputs\<close> returns as \<^verbatim>\<open>out_file\<close> the absolute path, in the current
  working directory, of the base name of \<^verbatim>\<open>in_volume\<close> with \<^verbatim>\<open>_diffeoxfmd\<close> put before its
  extension (the base name is the stem followed by the extension). When \<^verbatim>\<open>out_path\<close> is
  defined, it returns the absolute path of \<^verbatim>\<open>out_path\<close>. The working directory is an
  absolute path, as \<^verbatim>\<open>os.getcwd()\<close> always is.
\<close>

theorem diffeoScalarVolTask_out_file:
  assumes "isabs cwd"
  shows "(inp ''in_volume'' = Some (Str v) \<and> inp ''out_path'' = Some Undefined \<longrightarrow>
            fst (diffeoScalarVolTask_list_outputs cwd inp) =
              Inr [''out_file'' \<mapsto>
                Str (abspath cwd
                  (fst (snd (split_filename v)) @ ''_diffeoxfmd'' @ snd (snd (split_filename v))))])
       \<and> fst (snd (split_filename v)) @ snd (snd (split_filename v)) = basename v
       \<and> (inp ''out_path'' = Some (Str p) \<longrightarrow>
            fst (diffeoScalarVolTask_list_outputs cwd inp) =
              Inr [''out_file'' \<mapsto> Str (abspath cwd p)])"
proof -
  have s: "CHR ''/'' \<notin> set ''_diffeoxfmd''" by simp
  show ?thesis
    by (simp add: diffeoScalarVolTask_out_path_undefined diffeoScalarVolTask_out_path_defined
        fname_presuffix_in_cwd[OF assms s] split_filename_basename)
qed

theorem diffeoScalarVolTask_out_file_witness:
  "fst (diffeoScalarVolTask_list_outputs ''/home/user''
          ((new_inputs diffeoScalarVolInputSpec)(''in_volume'' \<mapsto> Str ''data/fa.nii.gz'')))
     = Inr [''out_file'' \<mapsto> Str ''/home/user/fa_diffeoxfmd.nii.gz'']
   \<and> fst (diffeoScalarVolTask_list_outputs ''/home/user''
          ((new_inputs diffeoScalarVolInputSpec)
             (''in_volume'' \<mapsto> Str ''data/fa.nii.gz'', ''out_path'' \<mapsto> Str ''out/moved.nii.gz'')))
     = Inr [''out_file'' \<mapsto> Str ''/home/user/out/moved.nii.gz'']"
proof -
  have c: "isabs ''/home/user''" by (simp add: isabs_def)
  have f: "split_filename ''data/fa.nii.gz'' = (''data'', ''fa'', ''.nii.gz'')" by code_simp
  have a: "abspath ''/home/user'' ''fa_diffeoxfmd.nii.gz'' = ''/home/user/fa_diffeoxfmd.nii.gz''"
    by code_simp
  have b: "abspath ''/home/user'' ''out/moved.nii.gz'' = ''/home/user/out/moved.nii.gz''"
    by code_simp
  have u: "((new_inputs diffeoScalarVolInputSpec)(''in_volume'' \<mapsto> Str ''data/fa.nii.gz''))
             ''in_volume'' = Some (Str ''data/fa.nii.gz'')
         \<and> ((new_inputs diffeoScalarVolInputSpec)(''in_volume'' \<mapsto> Str ''data/fa.nii.gz''))
             ''out_path'' = Some Undefined"
    by (simp add: new_inputs_def diffeoScalarVolInputSpec_def)
  have d: "((new_inputs diffeoScalarVolInputSpec)
             (''in_volume'' \<mapsto> Str ''data/fa.nii.gz'', ''out_path'' \<mapsto> Str ''out/moved.nii.gz''))
             ''out_path'' = Some (Str ''out/moved.nii.gz'')"
    by simp
  have "fst (diffeoScalarVolTask_list_outputs ''/home/user''
          ((new_inputs diffeoScalarVolInputSpec)(''in_volume'' \<mapsto> Str ''data/fa.nii.gz'')))
     = Inr [''out_file'' \<mapsto> Str (abspath ''/home/user''
          (fst (snd (split_filename ''data/fa.nii.gz'')) @ ''_diffeoxfmd''
             @ snd (snd (split_filename ''data/fa.nii.gz''))))]"
    using diffeoScalarVolTask_out_file[OF c, where
        inp = "(new_inputs diffeoScalarVolInputSpec)(''in_volume'' \<mapsto> Str ''data/fa.nii.gz'')"
        and v = "''data/fa.nii.gz''", THEN conjunct1, THEN mp, OF u] .
  then have first: "fst (diffeoScalarVolTask_list_outputs ''/home/user''
          ((new_inputs diffeoScalarVolInputSpec)(''in_volume'' \<mapsto> Str ''data/fa.nii.gz'')))
     = Inr [''out_file'' \<mapsto> Str ''/home/user/fa_diffeoxfmd.nii.gz'']"
    by (simp only: f fst_conv snd_conv append.simps a)
  have "fst (diffeoScalarVolTask_list_outputs ''/home/user''
          ((new_inputs diffeoScalarVolInputSpec)
             (''in_volume'' \<mapsto> Str ''data/fa.nii.gz'', ''out_path'' \<mapsto> Str ''out/moved.nii.gz'')))
     = Inr [''out_file'' \<mapsto> Str (abspath ''/home/user'' ''out/moved.nii.gz'')]"
    using diffeoScalarVolTask_out_file[OF c, where
        inp = "(new_inputs diffeoScalarVolInputSpec)
             (''in_volume'' \<mapsto> Str ''data/fa.nii.gz'', ''out_path'' \<mapsto> Str ''out/moved.nii.gz'')"
        and p = "''out/moved.nii.gz''", THEN conjunct2, THEN conjunct2, THEN mp, OF d] .
  then have second: "fst (diffeoScalarVolTask_list_outputs ''/home/user''
          ((new_inputs diffeoScalarVolInputSpec)
             (''in_volume'' \<mapsto> Str ''data/fa.nii.gz'', ''out_path'' \<mapsto> Str ''out/moved.nii.gz'')))
     = Inr [''out_file'' \<mapsto> Str ''/home/user/out/moved.nii.gz'']"
    by (simp only: b)
  from first second show ?thesis by (rule conjI)
qed

end
